theory Spec2Isabelle
  imports Complex_Main
begin

section \<open>Notebook 06 (expectations and observables): the helper code\<close>

text \<open>
  The notebooks hold almost no code of their own; the one with arithmetic in it is
  notebook 06. Its arrays are numpy arrays of 64-bit floats, read here as lists of reals;
  \<open>nan\<close>, which numpy returns for the mean of an empty selection, is \<open>None\<close>.
\<close>

datatype error = IndexError

subsection \<open>numpy operations used by the cells\<close>

text \<open>
  \<^verbatim>\<open>a[mask]\<close> with a boolean mask keeps the entries whose mask bit is set, and raises
  IndexError when the mask and the array differ in length.
\<close>

definition mask_select :: "real list \<Rightarrow> bool list \<Rightarrow> error + real list" where
  "mask_select a m =
     (if length m \<noteq> length a then Inl IndexError
      else Inr (map fst (filter snd (zip a m))))"

text \<open>\<^verbatim>\<open>dtraj == i\<close>: the element-wise comparison.\<close>

definition eq_mask :: "int list \<Rightarrow> int \<Rightarrow> bool list" where
  "eq_mask dtraj i = map (\<lambda>d. d = i) dtraj"

text \<open>\<^verbatim>\<open>a.mean()\<close>: the arithmetic mean, \<open>nan\<close> for an empty array.\<close>

definition np_mean :: "real list \<Rightarrow> real option" where
  "np_mean a = (if a = [] then None else Some (sum_list a / real (length a)))"

text \<open>
  A list comprehension whose body may raise: the first exception ends it.
\<close>

fun comprehension :: "('a \<Rightarrow> error + 'b) \<Rightarrow> 'a list \<Rightarrow> error + 'b list" where
  "comprehension f [] = Inr []"
| "comprehension f (x # xs) =
     (case f x of
        Inl e \<Rightarrow> Inl e
      | Inr y \<Rightarrow> (case comprehension f xs of Inl e \<Rightarrow> Inl e | Inr ys \<Rightarrow> Inr (y # ys)))"

text \<open>
  \<^verbatim>\<open>np.array([ftraj[cluster.dtrajs[0] == i].mean() for i in range(cluster.n_clusters)])\<close>
\<close>

definition cluster_means :: "real list \<Rightarrow> int list \<Rightarrow> nat \<Rightarrow> error + real option list" where
  "cluster_means ftraj dtraj n =
     comprehension
       (\<lambda>i. case mask_select ftraj (eq_mask dtraj (int i)) of
               Inl e \<Rightarrow> Inl e
             | Inr sel \<Rightarrow> Inr (np_mean sel))
       [0..<n]"

subsection \<open>The functions the notebook defines\<close>

text \<open>\<^verbatim>\<open>def observable(x, y): return (0.5 * x + y + 4)\<close>\<close>

definition observable :: "real \<Rightarrow> real \<Rightarrow> real" where
  "observable x y = 0.5 * x + y + 4"

text \<open>\<^verbatim>\<open>def new_observable(x, y): return ((2 + y)**2 + x)\<close>\<close>

definition new_observable :: "real \<Rightarrow> real \<Rightarrow> real" where
  "new_observable x y = (2 + y)\<^sup>2 + x"

text \<open>\<^verbatim>\<open>def is_within(x, a, b): return ' not ' if x < a or x > b else ' '\<close>\<close>

definition is_within :: "real \<Rightarrow> real \<Rightarrow> real \<Rightarrow> string" where
  "is_within x a b = (if x < a \<or> x > b then '' not '' else '' '')"

text \<open>
  \<^verbatim>\<open>def Karplus(theta):
    return 8.754 * np.cos(theta)**2 - 1.222 * np.cos(theta) + 0.111\<close>
  The notebook applies it to whole arrays, \<^verbatim>\<open>[Karplus(t.ravel()) for t in dihedral]\<close>,
  where numpy evaluates it entry by entry.
\<close>

definition Karplus :: "real \<Rightarrow> real" where
  "Karplus theta = 8.754 * (cos theta)\<^sup>2 - 1.222 * cos theta + 0.111"

definition Karplus_array :: "real list \<Rightarrow> real list" where
  "Karplus_array t = map Karplus t"

subsection \<open>The cells of case 1 as state transformers\<close>

text \<open>
  The variables of the interactive session that the cells below read or assign.
  \<open>data\<close> is the N x 2 trajectory (one pair per frame), \<open>dtraj0\<close> is
  \<^verbatim>\<open>cluster.dtrajs[0]\<close> and \<open>n_clusters\<close> is \<^verbatim>\<open>cluster.n_clusters\<close>, both set by the
  library when the third cell clusters \<open>data\<close>.
\<close>

record session =
  data :: "(real \<times> real) list"
  dtraj0 :: "int list"
  n_clusters :: nat
  ftraj :: "real list"
  observable_vec :: "real option list"
  new_ftraj :: "real list"
  new_observable_vec :: "real option list"

text \<open>
  Cell 6: \<^verbatim>\<open>ftraj = observable(*data.T)\<close> (its other statement, \<^verbatim>\<open>pcca = msm.pcca(2)\<close>,
  assigns none of the variables above).
\<close>

definition cell_ftraj :: "session \<Rightarrow> session" where
  "cell_ftraj s = s\<lparr>ftraj := map (\<lambda>(x, y). observable x y) (data s)\<rparr>"

text \<open>
  Cell 9:
  \<^verbatim>\<open>observable_vec = np.array([ftraj[cluster.dtrajs[0] == i].mean()
                           for i in range(cluster.n_clusters)])\<close>
\<close>

definition cell_observable_vec :: "session \<Rightarrow> error + session" where
  "cell_observable_vec s =
     (case cluster_means (ftraj s) (dtraj0 s) (n_clusters s) of
        Inl e \<Rightarrow> Inl e
      | Inr v \<Rightarrow> Inr (s\<lparr>observable_vec := v\<rparr>))"

text \<open>
  Cell 18, the reference solution of exercise 1, up to its second assignment:
  \<^verbatim>\<open>new_ftraj = new_observable(*data.T)
new_observable_vec = np.array([ftraj[cluster.dtrajs[0] == i].mean()
                               for i in range(cluster.n_clusters)])\<close>
  What follows in the cell hands \<open>new_observable_vec\<close> to the library and prints.
\<close>

definition cell_solution1 :: "session \<Rightarrow> error + session" where
  "cell_solution1 s =
     (let s1 = s\<lparr>new_ftraj := map (\<lambda>(x, y). new_observable x y) (data s)\<rparr> in
      case cluster_means (ftraj s1) (dtraj0 s1) (n_clusters s1) of
        Inl e \<Rightarrow> Inl e
      | Inr v \<Rightarrow> Inr (s1\<lparr>new_observable_vec := v\<rparr>))"

text \<open>
  The three cells in notebook order. The cells between them only plot and print, but for
  cell 17, the template of the exercise, which is not Python before the reader has filled
  it in and which cell 18 replaces.
\<close>

definition exercise1 :: "session \<Rightarrow> error + session" where
  "exercise1 s =
     (case cell_observable_vec (cell_ftraj s) of
        Inl e \<Rightarrow> Inl e
      | Inr s1 \<Rightarrow> cell_solution1 s1)"

text \<open>What the exercise text asks for: the cluster means of the new observable.\<close>

definition means_of_new_ftraj :: "session \<Rightarrow> error + real option list" where
  "means_of_new_ftraj s = cluster_means (new_ftraj s) (dtraj0 s) (n_clusters s)"

text \<open>Inputs on which the cells above are evaluated below.\<close>

definition session0 :: session where
  "session0 = \<lparr>data = [(0, 0), (2, 1), (4, 1)], dtraj0 = [0, 1, 0], n_clusters = 2,
     ftraj = [], observable_vec = [], new_ftraj = [], new_observable_vec = []\<rparr>"

definition session1 :: session where
  "session1 = \<lparr>data = [(0, 0), (2, 1), (4, 1)], dtraj0 = [0, 1, 0], n_clusters = 2,
     ftraj = [4, 6, 7], observable_vec = [Some (11/2), Some 6], new_ftraj = [4, 11, 13],
     new_observable_vec = [Some (11/2), Some 6]\<rparr>"

section \<open>The notebooks as scripts of calls\<close>

text \<open>
  Apart from the helpers above, a notebook is a script: each code cell is a short run of
  statements whose work is done by the calls they make. A cell is embedded as the kinds of
  its statements (nested ones included, in source order) and the calls it contains, in the
  order Python evaluates them within a statement (arguments before the call, the iterable
  of a comprehension before its element). A call site in a loop or in a function body is
  listed once, where it stands.

  The calls that the properties below are about keep their arguments:
  \<^item> \<open>Fetch p d\<close> is \<^verbatim>\<open>mdshare.fetch(p, working_directory=d)\<close>;
  \<^item> \<open>Pyemma m f\<close> is a call of the library function \<^verbatim>\<open>pyemma.m.f\<close>;
  \<^item> \<open>Method r f\<close> is a call of the method \<open>f\<close> of \<open>r\<close>, an object that the library
    returned (a featurizer, a reader, an estimator or a model);
  \<^item> \<open>Save_traj o\<close> is \<^verbatim>\<open>pyemma.coordinates.save_traj(..., outfile=o, ...)\<close>;
  \<^item> \<open>Timer_start n\<close> is \<^verbatim>\<open>Timer(n, stop_spin).start()\<close>, with \<open>Timer\<close> from \<open>threading\<close>;
  \<^item> \<open>Other r f\<close> is any other call (builtins, numpy, matplotlib, mdtraj, nglview and the
    notebook's own functions): the function \<open>f\<close>, after the receiver or module \<open>r\<close> when
    it has one.
  Receivers are written as in the source, with subscripts and arguments left out
  (\<open>axes[]\<close>, \<open>pyemma.coordinates.tica()\<close>) and \<open>str\<close> for a string literal.
  Exercise cells hold the placeholder \<^verbatim>\<open>#FIXME\<close> where the reader is to write an
  expression, and \<^verbatim>\<open>???\<close> for a name to fill in; such a cell is listed with the
  statements and calls that it does spell out.
\<close>

datatype call =
    Fetch string string
  | Pyemma string string
  | Method string string
  | Save_traj "string option"
  | Timer_start nat
  | Other string string

text \<open>
  The kinds of statement: \<open>Magic_stmt\<close> is an IPython line such as
  \<^verbatim>\<open>%matplotlib inline\<close>, with its text; \<open>Import_stmt m a\<close> is \<^verbatim>\<open>import m as a\<close>
  (\<^verbatim>\<open>import m\<close> binds \<open>m\<close> itself) and \<open>ImportFrom_stmt m f\<close> is \<^verbatim>\<open>from m import f\<close>;
  \<open>Def_stmt f\<close> is the definition of the function \<open>f\<close>; \<open>Expr_stmt\<close> is an expression on
  a line of its own (a call, a bare name that the notebook displays, a docstring);
  \<open>Async_stmt\<close> is any of \<^verbatim>\<open>async def\<close>, \<^verbatim>\<open>async for\<close> and \<^verbatim>\<open>async with\<close>; the others
  go by their keyword.
\<close>

datatype stmt =
    Magic_stmt string | Import_stmt string string | ImportFrom_stmt string string
  | Assign_stmt | Expr_stmt | Def_stmt string | Return_stmt
  | For_stmt | While_stmt | If_stmt | With_stmt | Try_stmt | Raise_stmt | Async_stmt

text \<open>A code cell, with its position among all cells of the notebook file.\<close>

datatype cell = Cell (index: nat) (stmts: "stmt list") (calls: "call list")

record notebook =
  title :: string
  cells :: "cell list"

definition nb01 :: notebook where
  "nb01 = \<lparr>title = ''01 - Data-I/O and featurization'', cells = [
     Cell 1
       [Magic_stmt ''%matplotlib inline'', Import_stmt ''matplotlib.pyplot'' ''plt'',
        Import_stmt ''numpy'' ''np'', Import_stmt ''mdshare'' ''mdshare'',
        Import_stmt ''pyemma'' ''pyemma'']
       [],
     Cell 3
       [Assign_stmt, With_stmt, Assign_stmt, Expr_stmt]
       [Fetch ''hmm-doublewell-2d-100k.npz'' ''data'', Other ''np'' ''load'', Other [] ''print''],
     Cell 5
       [Expr_stmt]
       [Pyemma ''plots'' ''plot_feature_histograms''],
     Cell 7
       [Assign_stmt, Expr_stmt, Expr_stmt, Expr_stmt]
       [Pyemma ''plots'' ''plot_free_energy'', Other ''ax'' ''set_xlabel'',
        Other ''ax'' ''set_ylabel'', Other ''fig'' ''tight_layout''],
     Cell 9
       [Assign_stmt, Assign_stmt, Expr_stmt, Expr_stmt]
       [Fetch ''alanine-dipeptide-nowater.pdb'' ''data'',
        Fetch ''alanine-dipeptide-*-250ns-nowater.dcd'' ''data'', Other [] ''print'',
        Other [] ''print''],
     Cell 11
       [Import_stmt ''mdtraj'' ''mdtraj'', Import_stmt ''nglview'' ''nglview'',
        ImportFrom_stmt ''nglview.player'' ''TrajectoryPlayer'', Import_stmt ''os'' ''os'',
        ImportFrom_stmt ''threading'' ''Timer'', Assign_stmt, Assign_stmt, Assign_stmt,
        Assign_stmt, Def_stmt ''stop_spin'', Assign_stmt, Expr_stmt, Expr_stmt]
       [Other ''os.path'' ''join'', Other ''mdtraj'' ''load'', Other ''nglview'' ''show_mdtraj'',
        Other [] ''TrajectoryPlayer'', Timer_start 30],
     Cell 13
       [Assign_stmt]
       [Pyemma ''coordinates'' ''featurizer''],
     Cell 15
       [Expr_stmt]
       [Method ''feat'' ''add_backbone_torsions''],
     Cell 17
       [Expr_stmt]
       [Method ''feat'' ''describe'', Other [] ''print''],
     Cell 19
       [Assign_stmt, Expr_stmt]
       [Pyemma ''coordinates'' ''load'', Other [] ''print''],
     Cell 21
       [Expr_stmt]
       [Other ''np'' ''concatenate'', Pyemma ''plots'' ''plot_feature_histograms''],
     Cell 22
       [Assign_stmt, Expr_stmt, Expr_stmt, Expr_stmt]
       [Other ''np'' ''concatenate'', Pyemma ''plots'' ''plot_free_energy'',
        Other ''ax'' ''set_xlabel'', Other ''ax'' ''set_ylabel'', Other ''fig'' ''tight_layout''],
     Cell 24
       [Assign_stmt, Expr_stmt, Assign_stmt, Assign_stmt, Expr_stmt]
       [Pyemma ''coordinates'' ''featurizer'', Method ''feat'' ''select_Heavy'',
        Method ''feat'' ''add_selection'', Pyemma ''coordinates'' ''load'',
        Method ''feat'' ''describe'', Other [] ''print''],
     Cell 26
       [Assign_stmt, Expr_stmt, Expr_stmt]
       [Other ''plt'' ''subplots'', Other ''np'' ''concatenate'',
        Pyemma ''plots'' ''plot_feature_histograms'', Other ''fig'' ''tight_layout''],
     Cell 28
       [Expr_stmt]
       [Other [] ''print''],
     Cell 30
       [Assign_stmt, Expr_stmt]
       [Pyemma ''coordinates'' ''source'', Other [] ''print''],
     Cell 32
       [Assign_stmt, Expr_stmt]
       [Method ''data'' ''get_output'', Other [] ''print''],
     Cell 34
       [Assign_stmt, Expr_stmt, Expr_stmt]
       [Other ''plt'' ''subplots'', Other ''np'' ''concatenate'',
        Pyemma ''plots'' ''plot_feature_histograms'', Other ''fig'' ''tight_layout''],
     Cell 36
       [Assign_stmt, Expr_stmt, Assign_stmt, Assign_stmt, Expr_stmt, Expr_stmt]
       [Pyemma ''coordinates'' ''featurizer'', Pyemma ''coordinates'' ''load'',
        Other ''plt'' ''subplots'', Other ''np'' ''concatenate'', Method ''feat'' ''describe'',
        Pyemma ''plots'' ''plot_feature_histograms'', Other ''fig'' ''tight_layout''],
     Cell 37
       [Assign_stmt, Expr_stmt, Assign_stmt, Assign_stmt, Expr_stmt, Expr_stmt]
       [Pyemma ''coordinates'' ''featurizer'', Method ''feat'' ''select_Heavy'',
        Method ''feat'' ''add_distances'', Pyemma ''coordinates'' ''load'',
        Other ''plt'' ''subplots'', Other ''np'' ''concatenate'', Method ''feat'' ''describe'',
        Pyemma ''plots'' ''plot_feature_histograms'', Other ''fig'' ''tight_layout''],
     Cell 39
       [Assign_stmt, Assign_stmt]
       [Fetch ''pentapeptide-impl-solv.pdb'' ''data'',
        Fetch ''pentapeptide-*-500ns-impl-solv.xtc'' ''data''],
     Cell 41
       [Assign_stmt, Assign_stmt, Expr_stmt, Assign_stmt, Def_stmt ''stop_spin'', Assign_stmt,
        Expr_stmt, Expr_stmt]
       [Other ''os.path'' ''join'', Other ''mdtraj'' ''load'', Other ''nglview'' ''show_mdtraj'',
        Other [] ''TrajectoryPlayer'', Other ''widget'' ''add_ball_and_stick'', Timer_start 30],
     Cell 43
       [Assign_stmt, Expr_stmt, Expr_stmt, Assign_stmt, Assign_stmt, Assign_stmt, Expr_stmt]
       [Pyemma ''coordinates'' ''featurizer'', Method ''feat'' ''add_backbone_torsions'',
        Method ''feat'' ''add_sidechain_torsions'', Pyemma ''coordinates'' ''load'',
        Other ''np'' ''concatenate'', Method ''feat'' ''describe'', Other [] ''print''],
     Cell 45
       [Assign_stmt, Expr_stmt, Expr_stmt]
       [Other ''plt'' ''subplots'', Pyemma ''plots'' ''plot_feature_histograms'',
        Other ''fig'' ''tight_layout''],
     Cell 47
       [Assign_stmt, Expr_stmt, Assign_stmt, Assign_stmt, Assign_stmt, Expr_stmt, Expr_stmt]
       [Pyemma ''coordinates'' ''featurizer'', Pyemma ''coordinates'' ''load'',
        Other ''np'' ''concatenate'', Other ''plt'' ''subplots'', Method ''feat'' ''describe'',
        Pyemma ''plots'' ''plot_feature_histograms'', Other ''fig'' ''tight_layout''],
     Cell 48
       [Assign_stmt, Expr_stmt, Assign_stmt, Assign_stmt, Assign_stmt, Expr_stmt, Expr_stmt]
       [Pyemma ''coordinates'' ''featurizer'', Method ''feat'' ''add_distances_ca'',
        Pyemma ''coordinates'' ''load'', Other ''np'' ''concatenate'', Other ''plt'' ''subplots'',
        Method ''feat'' ''describe'', Pyemma ''plots'' ''plot_feature_histograms'',
        Other ''fig'' ''tight_layout''],
     Cell 50
       [Assign_stmt, Expr_stmt, Assign_stmt, Assign_stmt, Assign_stmt, Expr_stmt, Expr_stmt]
       [Pyemma ''coordinates'' ''featurizer'', Pyemma ''coordinates'' ''load'',
        Other ''np'' ''concatenate'', Other ''plt'' ''subplots'', Method ''feat'' ''describe'',
        Pyemma ''plots'' ''plot_feature_histograms'', Other ''fig'' ''tight_layout''],
     Cell 51
       [Assign_stmt, Expr_stmt, Assign_stmt, Assign_stmt, Assign_stmt, Expr_stmt, Expr_stmt]
       [Pyemma ''coordinates'' ''featurizer'', Method ''feat'' ''add_residue_mindist'',
        Pyemma ''coordinates'' ''load'', Other ''np'' ''concatenate'', Other ''plt'' ''subplots'',
        Method ''feat'' ''describe'', Pyemma ''plots'' ''plot_feature_histograms'',
        Other ''fig'' ''tight_layout''],
     Cell 53
       [Assign_stmt, Expr_stmt, Assign_stmt, Assign_stmt, Assign_stmt, Expr_stmt, Expr_stmt]
       [Pyemma ''coordinates'' ''featurizer'', Pyemma ''coordinates'' ''load'',
        Other ''np'' ''concatenate'', Other ''plt'' ''subplots'', Method ''feat'' ''describe'',
        Pyemma ''plots'' ''plot_feature_histograms'', Other ''fig'' ''tight_layout''],
     Cell 54
       [Assign_stmt, Expr_stmt, Assign_stmt, Assign_stmt, Assign_stmt, Expr_stmt, Expr_stmt]
       [Pyemma ''coordinates'' ''featurizer'', Method ''feat'' ''select_Backbone'',
        Method ''feat'' ''add_selection'', Pyemma ''coordinates'' ''load'',
        Other ''np'' ''concatenate'', Other ''plt'' ''subplots'', Method ''feat'' ''describe'',
        Pyemma ''plots'' ''plot_feature_histograms'', Other ''fig'' ''tight_layout''],
     Cell 56
       [Assign_stmt, Expr_stmt, Assign_stmt, Assign_stmt, Assign_stmt, Expr_stmt, Expr_stmt]
       [Pyemma ''coordinates'' ''featurizer'', Pyemma ''coordinates'' ''load'',
        Other ''np'' ''concatenate'', Other ''plt'' ''subplots'', Method ''feat'' ''describe'',
        Pyemma ''plots'' ''plot_feature_histograms'', Other ''fig'' ''tight_layout''],
     Cell 57
       [Assign_stmt, Expr_stmt, Assign_stmt, Assign_stmt, Assign_stmt, Expr_stmt, Expr_stmt]
       [Pyemma ''coordinates'' ''featurizer'', Method ''feat'' ''select_Ca'',
        Method ''feat'' ''add_selection'', Pyemma ''coordinates'' ''load'',
        Other ''np'' ''concatenate'', Other ''plt'' ''subplots'', Method ''feat'' ''describe'',
        Pyemma ''plots'' ''plot_feature_histograms'', Other ''fig'' ''tight_layout'']]\<rparr>"

definition nb02 :: notebook where
  "nb02 = \<lparr>title = ''02 - Dimension reduction and discretization'', cells = [
     Cell 1
       [Magic_stmt ''%matplotlib inline'', Import_stmt ''matplotlib.pyplot'' ''plt'',
        Import_stmt ''numpy'' ''np'', Import_stmt ''mdshare'' ''mdshare'',
        Import_stmt ''pyemma'' ''pyemma'']
       [],
     Cell 3
       [Assign_stmt, With_stmt, Assign_stmt, Assign_stmt, Expr_stmt, For_stmt, Expr_stmt,
        Expr_stmt, Expr_stmt, Expr_stmt, Expr_stmt, Expr_stmt]
       [Fetch ''hmm-doublewell-2d-100k.npz'' ''data'', Other ''np'' ''load'',
        Other ''plt'' ''subplots'', Pyemma ''plots'' ''plot_feature_histograms'',
        Other [] ''enumerate'', Other ''np'' ''linspace'', Other ''axes[]'' ''plot'',
        Other ''str'' ''format'', Other [] ''dict'', Other ''axes[]'' ''annotate'',
        Other ''axes[]'' ''scatter'', Other ''axes[]'' ''set_xlabel'',
        Other ''axes[]'' ''set_ylabel'', Other ''fig'' ''tight_layout''],
     Cell 5
       [Assign_stmt]
       [Pyemma ''coordinates'' ''cluster_kmeans''],
     Cell 7
       [Assign_stmt]
       [Pyemma ''coordinates'' ''cluster_regspace''],
     Cell 9
       [Assign_stmt, For_stmt, Expr_stmt, Expr_stmt, Expr_stmt, Expr_stmt, Expr_stmt]
       [Other ''plt'' ''subplots'', Other [] ''zip'', Other ''ax'' ''scatter'',
        Other ''ax'' ''scatter'', Other ''ax'' ''set_xlabel'', Other ''ax'' ''set_ylabel'',
        Other ''fig'' ''tight_layout''],
     Cell 11
       [Expr_stmt, Expr_stmt]
       [Other [] ''print'', Other [] ''print''],
     Cell 13
       [Assign_stmt, Assign_stmt, Expr_stmt]
       [Pyemma ''coordinates'' ''pca'', Method ''pca'' ''get_output'', Other [] ''print''],
     Cell 15
       [Assign_stmt, Assign_stmt, Expr_stmt]
       [Pyemma ''coordinates'' ''tica'', Method ''tica'' ''get_output'', Other [] ''print''],
     Cell 17
       [Assign_stmt, Expr_stmt, Expr_stmt, Expr_stmt, Expr_stmt, Expr_stmt, Expr_stmt, Expr_stmt,
        Expr_stmt]
       [Other ''plt'' ''subplots'', Other ''np'' ''concatenate'',
        Pyemma ''plots'' ''plot_feature_histograms'', Other ''axes[]'' ''scatter'',
        Other [] ''abs'', Other [] ''abs'', Other ''axes[]'' ''plot'', Other [] ''abs'',
        Other [] ''abs'', Other ''axes[]'' ''plot'', Other ''axes[]'' ''set_xlabel'',
        Other ''axes[]'' ''set_ylabel'', Other ''axes[]'' ''legend'',
        Other ''fig'' ''tight_layout''],
     Cell 19
       [Assign_stmt, Expr_stmt, Expr_stmt, Expr_stmt, Expr_stmt, Expr_stmt, Expr_stmt]
       [Other ''plt'' ''subplots'', Other ''ax'' ''plot'', Other ''ax'' ''plot'',
        Other ''ax'' ''set_xlabel'', Other ''ax'' ''set_ylabel'', Other ''ax'' ''legend'',
        Other ''fig'' ''tight_layout''],
     Cell 21
       [Assign_stmt, Assign_stmt, Expr_stmt]
       [Other ''np'' ''min'', Other ''np'' ''max'', Other ''np'' ''linspace'',
        Other ''centers_pca'' ''reshape'', Pyemma ''coordinates'' ''assign_to_centers'',
        Other [] ''print''],
     Cell 23
       [Assign_stmt, Assign_stmt, Expr_stmt]
       [Other ''np'' ''min'', Other ''np'' ''max'', Other ''np'' ''linspace'',
        Other ''centers_tica'' ''reshape'', Pyemma ''coordinates'' ''assign_to_centers'',
        Other [] ''print''],
     Cell 25
       [Assign_stmt, Assign_stmt, Assign_stmt, Expr_stmt, Assign_stmt, Assign_stmt, Expr_stmt,
        Expr_stmt, Expr_stmt, Expr_stmt, Expr_stmt]
       [Fetch ''alanine-dipeptide-nowater.pdb'' ''data'',
        Fetch ''alanine-dipeptide-*-250ns-nowater.dcd'' ''data'',
        Pyemma ''coordinates'' ''featurizer'', Method ''feat'' ''add_backbone_torsions'',
        Pyemma ''coordinates'' ''load'', Other ''plt'' ''subplots'', Other ''np'' ''concatenate'',
        Pyemma ''plots'' ''plot_feature_histograms'', Other ''np'' ''concatenate'',
        Other ''axes[]'' ''scatter'', Other ''axes[]'' ''set_xlabel'',
        Other ''axes[]'' ''set_ylabel'', Other ''fig'' ''tight_layout''],
     Cell 27
       [Assign_stmt, Assign_stmt, Assign_stmt, For_stmt, Expr_stmt, Expr_stmt, Expr_stmt,
        Expr_stmt, Expr_stmt]
       [Pyemma ''coordinates'' ''cluster_kmeans'', Pyemma ''coordinates'' ''cluster_regspace'',
        Other ''plt'' ''subplots'', Other [] ''zip'', Other ''np'' ''concatenate'',
        Other ''ax'' ''scatter'', Other ''ax'' ''scatter'', Other ''ax'' ''set_xlabel'',
        Other ''ax'' ''set_ylabel'', Other ''fig'' ''tight_layout''],
     Cell 29
       [Assign_stmt, Expr_stmt, Assign_stmt, Expr_stmt, Assign_stmt, Expr_stmt, Expr_stmt]
       [Pyemma ''coordinates'' ''featurizer'', Pyemma ''coordinates'' ''load'',
        Method ''feat'' ''dimension'', Other ''str'' ''format'', Other [] ''print'',
        Other ''plt'' ''subplots'', Other ''np'' ''concatenate'', Method ''feat'' ''describe'',
        Pyemma ''plots'' ''plot_feature_histograms'', Other ''fig'' ''tight_layout''],
     Cell 30
       [Assign_stmt, Expr_stmt, Assign_stmt, Expr_stmt, Assign_stmt, Expr_stmt, Expr_stmt]
       [Pyemma ''coordinates'' ''featurizer'', Method ''feat'' ''select_Heavy'',
        Method ''feat'' ''add_selection'', Pyemma ''coordinates'' ''load'',
        Method ''feat'' ''dimension'', Other ''str'' ''format'', Other [] ''print'',
        Other ''plt'' ''subplots'', Other ''np'' ''concatenate'', Method ''feat'' ''describe'',
        Pyemma ''plots'' ''plot_feature_histograms'', Other ''fig'' ''tight_layout''],
     Cell 32
       [Assign_stmt, Assign_stmt, Assign_stmt, Expr_stmt, Expr_stmt, Expr_stmt, For_stmt,
        Expr_stmt, Expr_stmt, Expr_stmt]
       [Pyemma ''coordinates'' ''pca'', Method ''pca'' ''get_output'',
        Other ''np'' ''concatenate'', Other ''plt'' ''subplots'', Method ''pca'' ''dimension'',
        Other [] ''range'', Other ''str'' ''format'',
        Pyemma ''plots'' ''plot_feature_histograms'', Other ''axes[]'' ''scatter'',
        Pyemma ''plots'' ''plot_free_energy'', Other ''ax'' ''set_xlabel'',
        Other ''ax'' ''set_ylabel'', Other ''fig'' ''tight_layout''],
     Cell 34
       [Assign_stmt, Assign_stmt, Assign_stmt, Expr_stmt, Expr_stmt, Expr_stmt, For_stmt,
        Expr_stmt, Expr_stmt, Expr_stmt]
       [Method ''tica'' ''get_output'', Other ''np'' ''concatenate'', Other ''plt'' ''subplots'',
        Method ''tica'' ''dimension'', Other [] ''range'', Other ''str'' ''format'',
        Pyemma ''plots'' ''plot_feature_histograms'', Other ''axes[]'' ''scatter'',
        Pyemma ''plots'' ''plot_free_energy'', Other ''ax'' ''set_xlabel'',
        Other ''ax'' ''set_ylabel'', Other ''fig'' ''tight_layout''],
     Cell 35
       [Assign_stmt, Assign_stmt, Assign_stmt, Expr_stmt, Expr_stmt, Expr_stmt, For_stmt,
        Expr_stmt, Expr_stmt, Expr_stmt]
       [Pyemma ''coordinates'' ''tica'', Method ''tica'' ''get_output'',
        Other ''np'' ''concatenate'', Other ''plt'' ''subplots'', Method ''tica'' ''dimension'',
        Other [] ''range'', Other ''str'' ''format'',
        Pyemma ''plots'' ''plot_feature_histograms'', Other ''axes[]'' ''scatter'',
        Pyemma ''plots'' ''plot_free_energy'', Other ''ax'' ''set_xlabel'',
        Other ''ax'' ''set_ylabel'', Other ''fig'' ''tight_layout''],
     Cell 37
       [Assign_stmt, Assign_stmt, Assign_stmt, Assign_stmt, Expr_stmt, Expr_stmt, Expr_stmt,
        Expr_stmt, Expr_stmt, Expr_stmt]
       [Pyemma ''coordinates'' ''cluster_kmeans'', Other ''plt'' ''subplots'',
        Method ''pca'' ''dimension'', Other [] ''range'', Other ''str'' ''format'',
        Pyemma ''plots'' ''plot_feature_histograms'', Other ''axes[]'' ''scatter'',
        Other ''axes[]'' ''scatter'', Other ''axes[]'' ''set_xlabel'',
        Other ''axes[]'' ''set_ylabel'', Other ''fig'' ''tight_layout''],
     Cell 38
       [Assign_stmt, Assign_stmt, Assign_stmt, Assign_stmt, Expr_stmt, Expr_stmt, Expr_stmt,
        Expr_stmt, Expr_stmt, Expr_stmt]
       [Pyemma ''coordinates'' ''pca'', Method ''pca'' ''get_output'',
        Other ''np'' ''concatenate'', Pyemma ''coordinates'' ''cluster_kmeans'',
        Other ''plt'' ''subplots'', Method ''pca'' ''dimension'', Other [] ''range'',
        Other ''str'' ''format'', Pyemma ''plots'' ''plot_feature_histograms'',
        Other ''axes[]'' ''scatter'', Other ''axes[]'' ''scatter'',
        Other ''axes[]'' ''set_xlabel'', Other ''axes[]'' ''set_ylabel'',
        Other ''fig'' ''tight_layout''],
     Cell 40
       [Assign_stmt, Assign_stmt, Assign_stmt, Assign_stmt, Expr_stmt, Expr_stmt, Expr_stmt,
        Expr_stmt, Expr_stmt, Expr_stmt]
       [Other ''plt'' ''subplots'', Method ''tica'' ''dimension'', Other [] ''range'',
        Other ''str'' ''format'', Pyemma ''plots'' ''plot_feature_histograms'',
        Other ''axes[]'' ''scatter'', Other ''axes[]'' ''scatter'',
        Other ''axes[]'' ''set_xlabel'', Other ''axes[]'' ''set_ylabel'',
        Other ''fig'' ''tight_layout''],
     Cell 41
       [Assign_stmt, Assign_stmt, Assign_stmt, Assign_stmt, Expr_stmt, Expr_stmt, Expr_stmt,
        Expr_stmt, Expr_stmt, Expr_stmt]
       [Pyemma ''coordinates'' ''tica'', Method ''tica'' ''get_output'',
        Other ''np'' ''concatenate'', Pyemma ''coordinates'' ''cluster_kmeans'',
        Other ''plt'' ''subplots'', Method ''tica'' ''dimension'', Other [] ''range'',
        Other ''str'' ''format'', Pyemma ''plots'' ''plot_feature_histograms'',
        Other ''axes[]'' ''scatter'', Other ''axes[]'' ''scatter'',
        Other ''axes[]'' ''set_xlabel'', Other ''axes[]'' ''set_ylabel'',
        Other ''fig'' ''tight_layout''],
     Cell 43
       [Assign_stmt, Assign_stmt, Assign_stmt, Expr_stmt, Expr_stmt, Assign_stmt, Assign_stmt,
        Assign_stmt, Expr_stmt, Expr_stmt]
       [Fetch ''pentapeptide-impl-solv.pdb'' ''data'',
        Fetch ''pentapeptide-*-500ns-impl-solv.xtc'' ''data'', Pyemma ''coordinates'' ''load'',
        Other ''np'' ''concatenate'', Other ''plt'' ''subplots'', Method ''feat'' ''describe'',
        Pyemma ''plots'' ''plot_feature_histograms'', Other ''fig'' ''tight_layout''],
     Cell 44
       [Assign_stmt, Assign_stmt, Assign_stmt, Expr_stmt, Expr_stmt, Assign_stmt, Assign_stmt,
        Assign_stmt, Expr_stmt, Expr_stmt]
       [Fetch ''pentapeptide-impl-solv.pdb'' ''data'',
        Fetch ''pentapeptide-*-500ns-impl-solv.xtc'' ''data'',
        Pyemma ''coordinates'' ''featurizer'', Method ''feat'' ''add_backbone_torsions'',
        Method ''feat'' ''add_sidechain_torsions'', Pyemma ''coordinates'' ''load'',
        Other ''np'' ''concatenate'', Other ''plt'' ''subplots'', Method ''feat'' ''describe'',
        Pyemma ''plots'' ''plot_feature_histograms'', Other ''fig'' ''tight_layout''],
     Cell 46
       [Assign_stmt, Assign_stmt, Assign_stmt, Expr_stmt, Expr_stmt, Expr_stmt, For_stmt,
        Expr_stmt, Expr_stmt, Expr_stmt]
       [Method ''pca'' ''get_output'', Other ''np'' ''concatenate'', Other ''plt'' ''subplots'',
        Method ''pca'' ''dimension'', Other [] ''range'', Other ''str'' ''format'',
        Pyemma ''plots'' ''plot_feature_histograms'', Other ''axes[]'' ''scatter'',
        Pyemma ''plots'' ''plot_free_energy'', Other ''ax'' ''set_xlabel'',
        Other ''ax'' ''set_ylabel'', Other ''fig'' ''tight_layout''],
     Cell 47
       [Assign_stmt, Assign_stmt, Assign_stmt, Expr_stmt, Expr_stmt, Expr_stmt, For_stmt,
        Expr_stmt, Expr_stmt, Expr_stmt]
       [Pyemma ''coordinates'' ''pca'', Method ''pca'' ''get_output'',
        Other ''np'' ''concatenate'', Other ''plt'' ''subplots'', Method ''pca'' ''dimension'',
        Other [] ''range'', Other ''str'' ''format'',
        Pyemma ''plots'' ''plot_feature_histograms'', Other ''axes[]'' ''scatter'',
        Pyemma ''plots'' ''plot_free_energy'', Other ''ax'' ''set_xlabel'',
        Other ''ax'' ''set_ylabel'', Other ''fig'' ''tight_layout''],
     Cell 49
       [Assign_stmt, Assign_stmt, For_stmt, Assign_stmt, Assign_stmt, Expr_stmt, Expr_stmt,
        Expr_stmt, Expr_stmt, For_stmt, Expr_stmt, Expr_stmt, Expr_stmt]
       [Other [] ''len'', Other [] ''len'', Other ''plt'' ''subplots'', Other [] ''enumerate'',
        Method ''tica'' ''dimension'', Other [] ''range'', Other ''str'' ''format'',
        Pyemma ''plots'' ''plot_feature_histograms'', Other ''str'' ''format'',
        Other ''axes[]'' ''set_title'', Other ''axes[]'' ''scatter'',
        Pyemma ''plots'' ''plot_free_energy'', Other ''ax'' ''set_xlabel'',
        Other ''ax'' ''set_ylabel'', Other ''fig'' ''tight_layout''],
     Cell 50
       [Assign_stmt, Assign_stmt, For_stmt, Assign_stmt, Assign_stmt, Expr_stmt, Expr_stmt,
        Expr_stmt, Expr_stmt, For_stmt, Expr_stmt, Expr_stmt, Expr_stmt]
       [Other [] ''len'', Other [] ''len'', Other ''plt'' ''subplots'', Other [] ''enumerate'',
        Pyemma ''coordinates'' ''tica'', Method ''tica'' ''get_output'',
        Other ''np'' ''concatenate'', Method ''tica'' ''dimension'', Other [] ''range'',
        Other ''str'' ''format'', Pyemma ''plots'' ''plot_feature_histograms'',
        Other ''str'' ''format'', Other ''axes[]'' ''set_title'', Other ''axes[]'' ''scatter'',
        Pyemma ''plots'' ''plot_free_energy'', Other ''ax'' ''set_xlabel'',
        Other ''ax'' ''set_ylabel'', Other ''fig'' ''tight_layout''],
     Cell 52
       [Assign_stmt, Assign_stmt, Assign_stmt, Assign_stmt, Expr_stmt, For_stmt, Expr_stmt,
        Expr_stmt, Expr_stmt, Expr_stmt, Expr_stmt]
       [Method ''pca'' ''get_output'', Other ''np'' ''concatenate'', Other ''plt'' ''subplots'',
        Method ''pca'' ''dimension'', Other [] ''range'', Other ''str'' ''format'',
        Pyemma ''plots'' ''plot_feature_histograms'', Other [] ''zip'', Other ''ax'' ''scatter'',
        Other ''ax'' ''scatter'', Other ''str'' ''format'', Other ''ax'' ''set_xlabel'',
        Other ''str'' ''format'', Other ''ax'' ''set_ylabel'', Other ''fig'' ''tight_layout''],
     Cell 53
       [Assign_stmt, Assign_stmt, Assign_stmt, Assign_stmt, Expr_stmt, For_stmt, Expr_stmt,
        Expr_stmt, Expr_stmt, Expr_stmt, Expr_stmt]
       [Pyemma ''coordinates'' ''pca'', Method ''pca'' ''get_output'',
        Other ''np'' ''concatenate'', Pyemma ''coordinates'' ''cluster_kmeans'',
        Other ''plt'' ''subplots'', Method ''pca'' ''dimension'', Other [] ''range'',
        Other ''str'' ''format'', Pyemma ''plots'' ''plot_feature_histograms'', Other [] ''zip'',
        Other ''ax'' ''scatter'', Other ''ax'' ''scatter'', Other ''str'' ''format'',
        Other ''ax'' ''set_xlabel'', Other ''str'' ''format'', Other ''ax'' ''set_ylabel'',
        Other ''fig'' ''tight_layout''],
     Cell 55
       [Assign_stmt, Assign_stmt, Assign_stmt, Assign_stmt, Expr_stmt, For_stmt, Expr_stmt,
        Expr_stmt, Expr_stmt, Expr_stmt, Expr_stmt]
       [Other ''plt'' ''subplots'', Method ''tica'' ''dimension'', Other [] ''range'',
        Other ''str'' ''format'', Pyemma ''plots'' ''plot_feature_histograms'', Other [] ''zip'',
        Other ''ax'' ''scatter'', Other ''ax'' ''scatter'', Other ''str'' ''format'',
        Other ''ax'' ''set_xlabel'', Other ''str'' ''format'', Other ''ax'' ''set_ylabel'',
        Other ''fig'' ''tight_layout''],
     Cell 56
       [Assign_stmt, Assign_stmt, Assign_stmt, Assign_stmt, Expr_stmt, For_stmt, Expr_stmt,
        Expr_stmt, Expr_stmt, Expr_stmt, Expr_stmt]
       [Pyemma ''coordinates'' ''tica'', Method ''tica'' ''get_output'',
        Other ''np'' ''concatenate'', Pyemma ''coordinates'' ''cluster_kmeans'',
        Other ''plt'' ''subplots'', Method ''tica'' ''dimension'', Other [] ''range'',
        Other ''str'' ''format'', Pyemma ''plots'' ''plot_feature_histograms'', Other [] ''zip'',
        Other ''ax'' ''scatter'', Other ''ax'' ''scatter'', Other ''str'' ''format'',
        Other ''ax'' ''set_xlabel'', Other ''str'' ''format'', Other ''ax'' ''set_ylabel'',
        Other ''fig'' ''tight_layout'']]\<rparr>"

definition nb03 :: notebook where
  "nb03 = \<lparr>title = ''03 - MSM estimation and validation'', cells = [
     Cell 1
       [Magic_stmt ''%matplotlib inline'', Import_stmt ''matplotlib.pyplot'' ''plt'',
        Import_stmt ''numpy'' ''np'', Import_stmt ''mdshare'' ''mdshare'',
        Import_stmt ''pyemma'' ''pyemma'']
       [],
     Cell 3
       [Assign_stmt, With_stmt, Assign_stmt, Assign_stmt, Assign_stmt, Expr_stmt, Expr_stmt,
        Expr_stmt, Expr_stmt, Expr_stmt, Expr_stmt]
       [Fetch ''hmm-doublewell-2d-100k.npz'' ''data'', Other ''np'' ''load'',
        Pyemma ''coordinates'' ''cluster_kmeans'', Other ''plt'' ''subplots'',
        Pyemma ''plots'' ''plot_feature_histograms'', Other ''axes[]'' ''scatter'',
        Other ''axes[]'' ''scatter'', Other ''axes[]'' ''set_xlabel'',
        Other ''axes[]'' ''set_ylabel'', Other ''fig'' ''tight_layout''],
     Cell 5
       [Assign_stmt]
       [Pyemma ''msm'' ''its''],
     Cell 7
       [Expr_stmt]
       [Pyemma ''plots'' ''plot_implied_timescales''],
     Cell 9
       [Assign_stmt, Expr_stmt]
       [Pyemma ''msm'' ''estimate_markov_model'', Method ''msm'' ''cktest'',
        Pyemma ''plots'' ''plot_cktest''],
     Cell 11
       [Assign_stmt, Assign_stmt, Assign_stmt, Expr_stmt, Assign_stmt, Assign_stmt, Assign_stmt,
        Assign_stmt, Expr_stmt, Expr_stmt, Expr_stmt, Expr_stmt, Expr_stmt, Expr_stmt, Expr_stmt]
       [Fetch ''alanine-dipeptide-nowater.pdb'' ''data'',
        Fetch ''alanine-dipeptide-*-250ns-nowater.dcd'' ''data'',
        Pyemma ''coordinates'' ''featurizer'', Method ''feat'' ''add_backbone_torsions'',
        Pyemma ''coordinates'' ''load'', Pyemma ''coordinates'' ''cluster_kmeans'',
        Pyemma ''msm'' ''its'', Other ''plt'' ''subplots'', Other ''np'' ''concatenate'',
        Pyemma ''plots'' ''plot_feature_histograms'', Other ''np'' ''concatenate'',
        Other ''axes[]'' ''scatter'', Other ''axes[]'' ''scatter'',
        Other ''axes[]'' ''set_xlabel'', Other ''axes[]'' ''set_ylabel'',
        Pyemma ''plots'' ''plot_implied_timescales'', Other ''fig'' ''tight_layout''],
     Cell 13
       [Assign_stmt, For_stmt, Assign_stmt, Expr_stmt, Expr_stmt, Expr_stmt, Expr_stmt, Expr_stmt,
        Expr_stmt, Expr_stmt, Expr_stmt]
       [Other ''plt'' ''subplots'', Other [] ''enumerate'',
        Pyemma ''coordinates'' ''cluster_kmeans'', Other ''np'' ''concatenate'',
        Other ''axes[]'' ''scatter'', Other ''axes[]'' ''scatter'',
        Other ''axes[]'' ''set_xlabel'', Other ''axes[]'' ''set_ylabel'',
        Other ''str'' ''format'', Other ''axes[]'' ''set_title'', Pyemma ''msm'' ''its'',
        Pyemma ''plots'' ''plot_implied_timescales'', Other ''axes[]'' ''set_ylim'',
        Other ''fig'' ''tight_layout''],
     Cell 15
       [Assign_stmt, Expr_stmt]
       [Pyemma ''msm'' ''estimate_markov_model'', Method ''msm'' ''cktest'',
        Pyemma ''plots'' ''plot_cktest''],
     Cell 17
       [Assign_stmt, Expr_stmt]
       [Pyemma ''msm'' ''bayesian_markov_model'', Method ''bayesian_msm'' ''cktest'',
        Pyemma ''plots'' ''plot_cktest''],
     Cell 19
       [Assign_stmt, Expr_stmt, Assign_stmt, Assign_stmt, Assign_stmt, Assign_stmt, Assign_stmt,
        Assign_stmt, Assign_stmt, Assign_stmt, Expr_stmt, Expr_stmt, Expr_stmt, Expr_stmt,
        Expr_stmt, Expr_stmt, Expr_stmt, Expr_stmt, Expr_stmt, Expr_stmt, Expr_stmt, Expr_stmt,
        Expr_stmt, Expr_stmt, Expr_stmt, Expr_stmt, Expr_stmt]
       [Pyemma ''coordinates'' ''pca'', Pyemma ''coordinates'' ''cluster_kmeans'',
        Pyemma ''msm'' ''its'', Other ''plt'' ''subplots'', Method ''pca'' ''get_output'',
        Other ''np'' ''concatenate'', Pyemma ''plots'' ''plot_feature_histograms'',
        Method ''tica'' ''get_output'', Other ''np'' ''concatenate'',
        Pyemma ''plots'' ''plot_feature_histograms'', Other ''axes[]'' ''set_title'',
        Other ''axes[]'' ''set_title'', Method ''pca'' ''get_output'',
        Other ''np'' ''concatenate'', Other ''axes[]'' ''scatter'', Other ''axes[]'' ''scatter'',
        Other ''axes[]'' ''set_xlabel'', Other ''axes[]'' ''set_ylabel'',
        Method ''tica'' ''get_output'', Other ''np'' ''concatenate'',
        Other ''axes[]'' ''scatter'', Other ''axes[]'' ''scatter'',
        Other ''axes[]'' ''set_xlabel'', Other ''axes[]'' ''set_ylabel'',
        Pyemma ''plots'' ''plot_implied_timescales'',
        Pyemma ''plots'' ''plot_implied_timescales'', Other ''axes[]'' ''set_ylim'',
        Other ''axes[]'' ''set_ylim'', Other ''fig'' ''tight_layout''],
     Cell 20
       [Assign_stmt, Expr_stmt, Assign_stmt, Assign_stmt, Assign_stmt, Assign_stmt, Assign_stmt,
        Assign_stmt, Assign_stmt, Assign_stmt, Expr_stmt, Expr_stmt, Expr_stmt, Expr_stmt,
        Expr_stmt, Expr_stmt, Expr_stmt, Expr_stmt, Expr_stmt, Expr_stmt, Expr_stmt, Expr_stmt,
        Expr_stmt, Expr_stmt, Expr_stmt, Expr_stmt, Expr_stmt]
       [Pyemma ''coordinates'' ''featurizer'', Method ''feat'' ''select_Heavy'',
        Method ''feat'' ''add_distances'', Pyemma ''coordinates'' ''load'',
        Pyemma ''coordinates'' ''pca'', Pyemma ''coordinates'' ''tica'',
        Pyemma ''coordinates'' ''cluster_kmeans'', Pyemma ''coordinates'' ''cluster_kmeans'',
        Pyemma ''msm'' ''its'', Pyemma ''msm'' ''its'', Other ''plt'' ''subplots'',
        Method ''pca'' ''get_output'', Other ''np'' ''concatenate'',
        Pyemma ''plots'' ''plot_feature_histograms'', Method ''tica'' ''get_output'',
        Other ''np'' ''concatenate'', Pyemma ''plots'' ''plot_feature_histograms'',
        Other ''axes[]'' ''set_title'', Other ''axes[]'' ''set_title'',
        Method ''pca'' ''get_output'', Other ''np'' ''concatenate'', Other ''axes[]'' ''scatter'',
        Other ''axes[]'' ''scatter'', Other ''axes[]'' ''set_xlabel'',
        Other ''axes[]'' ''set_ylabel'', Method ''tica'' ''get_output'',
        Other ''np'' ''concatenate'', Other ''axes[]'' ''scatter'', Other ''axes[]'' ''scatter'',
        Other ''axes[]'' ''set_xlabel'', Other ''axes[]'' ''set_ylabel'',
        Pyemma ''plots'' ''plot_implied_timescales'',
        Pyemma ''plots'' ''plot_implied_timescales'', Other ''axes[]'' ''set_ylim'',
        Other ''axes[]'' ''set_ylim'', Other ''fig'' ''tight_layout''],
     Cell 22
       [Assign_stmt, Expr_stmt]
       [Pyemma ''msm'' ''bayesian_markov_model''],
     Cell 23
       [Assign_stmt, Expr_stmt]
       [Pyemma ''msm'' ''bayesian_markov_model'', Method ''bayesian_msm'' ''cktest'',
        Pyemma ''plots'' ''plot_cktest''],
     Cell 25
       [Assign_stmt, Assign_stmt, Assign_stmt, Expr_stmt, Expr_stmt, Assign_stmt, Assign_stmt,
        Assign_stmt, Assign_stmt, Assign_stmt, Expr_stmt, Expr_stmt, Expr_stmt]
       [Fetch ''pentapeptide-impl-solv.pdb'' ''data'',
        Fetch ''pentapeptide-*-500ns-impl-solv.xtc'' ''data'', Other ''plt'' ''subplots'',
        Method ''tica'' ''get_output'', Other ''np'' ''concatenate'',
        Pyemma ''plots'' ''plot_feature_histograms'',
        Pyemma ''plots'' ''plot_implied_timescales'', Other ''fig'' ''tight_layout''],
     Cell 26
       [Assign_stmt, Assign_stmt, Assign_stmt, Expr_stmt, Expr_stmt, Assign_stmt, Assign_stmt,
        Assign_stmt, Assign_stmt, Assign_stmt, Expr_stmt, Expr_stmt, Expr_stmt]
       [Fetch ''pentapeptide-impl-solv.pdb'' ''data'',
        Fetch ''pentapeptide-*-500ns-impl-solv.xtc'' ''data'',
        Pyemma ''coordinates'' ''featurizer'', Method ''feat'' ''add_backbone_torsions'',
        Method ''feat'' ''add_sidechain_torsions'', Pyemma ''coordinates'' ''load'',
        Pyemma ''coordinates'' ''tica'', Pyemma ''coordinates'' ''cluster_kmeans'',
        Pyemma ''msm'' ''its'', Other ''plt'' ''subplots'', Method ''tica'' ''get_output'',
        Other ''np'' ''concatenate'', Pyemma ''plots'' ''plot_feature_histograms'',
        Pyemma ''plots'' ''plot_implied_timescales'', Other ''fig'' ''tight_layout''],
     Cell 28
       [Assign_stmt]
       [],
     Cell 29
       [Assign_stmt]
       [Pyemma ''msm'' ''estimate_markov_model''],
     Cell 31
       [Assign_stmt, Expr_stmt, Expr_stmt, Expr_stmt]
       [Method ''msm'' ''timescales'', Other ''plt'' ''plot'', Other ''plt'' ''xlabel'',
        Other ''plt'' ''ylabel''],
     Cell 33
       [Assign_stmt, Expr_stmt]
       [],
     Cell 34
       [Assign_stmt, Expr_stmt]
       [Pyemma ''msm'' ''bayesian_markov_model'', Method ''bayesian_msm'' ''cktest'',
        Pyemma ''plots'' ''plot_cktest''],
     Cell 36
       [Assign_stmt, Expr_stmt]
       [],
     Cell 37
       [Assign_stmt, Expr_stmt]
       [Pyemma ''msm'' ''bayesian_markov_model'', Method ''bayesian_msm'' ''cktest'',
        Pyemma ''plots'' ''plot_cktest'']]\<rparr>"

definition nb05 :: notebook where
  "nb05 = \<lparr>title = ''05 - hidden Markov state models (HMMs)'', cells = [
     Cell 1
       [Magic_stmt ''%matplotlib inline'', Import_stmt ''matplotlib.pyplot'' ''plt'',
        Import_stmt ''matplotlib'' ''mpl'', Import_stmt ''numpy'' ''np'',
        Import_stmt ''mdshare'' ''mdshare'', Import_stmt ''pyemma'' ''pyemma'']
       [],
     Cell 3
       [Assign_stmt, With_stmt, Assign_stmt, Assign_stmt]
       [Fetch ''hmm-doublewell-2d-100k.npz'' ''data'', Other ''np'' ''load''],
     Cell 5
       [Assign_stmt, Assign_stmt]
       [Other ''np'' ''asarray'', Pyemma ''coordinates'' ''assign_to_centers''],
     Cell 7
       [Assign_stmt, Expr_stmt, Expr_stmt, Expr_stmt, Expr_stmt, For_stmt, Expr_stmt, Expr_stmt,
        Expr_stmt, Expr_stmt, Expr_stmt]
       [Other ''plt'' ''subplots'', Other ''axes[]'' ''scatter'', Other ''axes[]'' ''scatter'',
        Other ''axes[]'' ''scatter'', Other ''np'' ''asarray'', Other ''axes[]'' ''scatter'',
        Other ''ax'' ''set_xlabel'', Other ''ax'' ''set_ylabel'', Other ''axes[]'' ''set_title'',
        Other ''axes[]'' ''set_title'', Other ''fig'' ''tight_layout''],
     Cell 9
       [Assign_stmt, Assign_stmt, Expr_stmt, Expr_stmt, Expr_stmt, Expr_stmt, Expr_stmt]
       [Other [] ''range'', Other ''plt'' ''subplots'', Pyemma ''msm'' ''its'',
        Pyemma ''plots'' ''plot_implied_timescales'', Pyemma ''msm'' ''its'',
        Pyemma ''plots'' ''plot_implied_timescales'', Other ''axes[]'' ''set_title'',
        Other ''axes[]'' ''set_title'', Other ''fig'' ''tight_layout''],
     Cell 11
       [Assign_stmt, Assign_stmt, Expr_stmt, Expr_stmt]
       [Pyemma ''msm'' ''estimate_markov_model'', Pyemma ''msm'' ''estimate_markov_model'',
        Method ''poor_msm'' ''timescales'', Other ''str'' ''format'', Other [] ''print'',
        Method ''good_msm'' ''timescales'', Other ''str'' ''format'', Other [] ''print''],
     Cell 13
       [Expr_stmt]
       [Method ''poor_msm'' ''cktest'', Pyemma ''plots'' ''plot_cktest''],
     Cell 15
       [Expr_stmt]
       [Method ''good_msm'' ''cktest'', Pyemma ''plots'' ''plot_cktest''],
     Cell 17
       [Assign_stmt, Expr_stmt, Expr_stmt, Expr_stmt, Expr_stmt, Expr_stmt]
       [Other ''plt'' ''subplots'', Pyemma ''msm'' ''timescales_hmsm'',
        Pyemma ''plots'' ''plot_implied_timescales'', Pyemma ''msm'' ''timescales_hmsm'',
        Pyemma ''plots'' ''plot_implied_timescales'', Other ''axes[]'' ''set_title'',
        Other ''axes[]'' ''set_title'', Other ''fig'' ''tight_layout''],
     Cell 19
       [Assign_stmt, Assign_stmt, Expr_stmt, Expr_stmt]
       [Pyemma ''msm'' ''estimate_hidden_markov_model'',
        Pyemma ''msm'' ''estimate_hidden_markov_model'', Method ''poor_hmm'' ''timescales'',
        Other ''str'' ''format'', Other [] ''print'', Method ''good_hmm'' ''timescales'',
        Other ''str'' ''format'', Other [] ''print''],
     Cell 21
       [Expr_stmt]
       [Method ''poor_hmm'' ''cktest'', Pyemma ''plots'' ''plot_cktest''],
     Cell 23
       [Expr_stmt]
       [Method ''good_hmm'' ''cktest'', Pyemma ''plots'' ''plot_cktest''],
     Cell 25
       [Assign_stmt, Assign_stmt, Assign_stmt, Expr_stmt, Expr_stmt, Expr_stmt, Expr_stmt,
        Expr_stmt, Expr_stmt, Expr_stmt, Expr_stmt, Expr_stmt, For_stmt, Expr_stmt, Expr_stmt]
       [Other ''np'' ''asarray'', Pyemma ''coordinates'' ''assign_to_centers'',
        Other ''plt'' ''subplots'', Other ''axes[]'' ''scatter'', Other ''axes[]'' ''scatter'',
        Pyemma ''msm'' ''its'', Pyemma ''plots'' ''plot_implied_timescales'',
        Pyemma ''msm'' ''timescales_hmsm'', Pyemma ''plots'' ''plot_implied_timescales'',
        Other ''axes[]'' ''set_xlabel'', Other ''axes[]'' ''set_ylabel'',
        Other ''axes[]'' ''set_title'', Other ''axes[]'' ''set_title'',
        Other ''axes[]'' ''set_title'', Other ''ax'' ''set_ylim'', Other ''fig'' ''tight_layout''],
     Cell 27
       [Assign_stmt, Expr_stmt, Expr_stmt]
       [Pyemma ''msm'' ''estimate_hidden_markov_model'', Method ''bad_hmm'' ''timescales'',
        Other ''str'' ''format'', Other [] ''print'', Method ''bad_hmm'' ''cktest'',
        Pyemma ''plots'' ''plot_cktest''],
     Cell 29
       [Assign_stmt, Expr_stmt, Assign_stmt, Expr_stmt]
       [Pyemma ''msm'' ''estimate_markov_model'', Method ''bad_msm'' ''timescales'',
        Other ''str'' ''format'', Other [] ''print'', Method ''bad_msm'' ''coarse_grain'',
        Other [] ''type'', Other [] ''print''],
     Cell 31
       [Expr_stmt, Expr_stmt]
       [Method ''bad_coarse_msm'' ''timescales'', Other ''str'' ''format'', Other [] ''print'',
        Method ''bad_coarse_msm'' ''cktest'', Pyemma ''plots'' ''plot_cktest''],
     Cell 33
       [Assign_stmt, Assign_stmt, Assign_stmt, Expr_stmt, Assign_stmt, Assign_stmt, Assign_stmt,
        Assign_stmt, Assign_stmt, Expr_stmt, Expr_stmt, Expr_stmt, Expr_stmt, Expr_stmt,
        Expr_stmt, Expr_stmt]
       [Fetch ''alanine-dipeptide-nowater.pdb'' ''data'',
        Fetch ''alanine-dipeptide-*-250ns-nowater.dcd'' ''data'',
        Pyemma ''coordinates'' ''featurizer'', Method ''feat'' ''add_backbone_torsions'',
        Pyemma ''coordinates'' ''load'', Other ''np'' ''concatenate'',
        Pyemma ''coordinates'' ''cluster_kmeans'', Pyemma ''msm'' ''its'',
        Other ''plt'' ''subplots'', Pyemma ''plots'' ''plot_feature_histograms'',
        Other ''axes[]'' ''scatter'', Other ''axes[]'' ''scatter'',
        Other ''axes[]'' ''set_xlabel'', Other ''axes[]'' ''set_ylabel'',
        Pyemma ''plots'' ''plot_implied_timescales'', Other ''fig'' ''tight_layout''],
     Cell 35
       [Assign_stmt, Assign_stmt, Expr_stmt]
       [Pyemma ''msm'' ''bayesian_markov_model'', Method ''bayesian_msm'' ''cktest'',
        Pyemma ''plots'' ''plot_cktest''],
     Cell 37
       [Assign_stmt, Expr_stmt, Expr_stmt]
       [Method ''bayesian_msm'' ''coarse_grain'', Other ''str'' ''format'', Other [] ''print'',
        Other ''str'' ''format'', Other [] ''print''],
     Cell 39
       [Assign_stmt, Assign_stmt, Assign_stmt, Expr_stmt, Assign_stmt, Assign_stmt, Expr_stmt,
        Expr_stmt, For_stmt, Expr_stmt, Expr_stmt, Expr_stmt]
       [Other ''plt'' ''subplots'', Other ''np'' ''concatenate'', Other ''axes[]'' ''scatter'',
        Other ''fig'' ''colorbar'', Other ''cb'' ''set_label'', Other ''np'' ''concatenate'',
        Other ''mpl.cm'' ''get_cmap'', Other ''np'' ''arange'',
        Other ''mpl.colors'' ''BoundaryNorm'', Other ''axes[]'' ''scatter'',
        Other ''fig'' ''colorbar'', Other ''cb'' ''set_label'', Other ''np'' ''arange'',
        Other ''cb'' ''set_ticks'', Other ''ax'' ''set_xlabel'', Other ''ax'' ''set_ylabel'',
        Other ''fig'' ''tight_layout''],
     Cell 41
       [Assign_stmt, Assign_stmt, Assign_stmt, Expr_stmt, Expr_stmt, Expr_stmt, Expr_stmt,
        Expr_stmt, Expr_stmt, Expr_stmt]
       [Pyemma ''coordinates'' ''cluster_regspace'', Pyemma ''msm'' ''its'',
        Other ''plt'' ''subplots'', Pyemma ''plots'' ''plot_feature_histograms'',
        Other ''np'' ''concatenate'', Other ''axes[]'' ''scatter'', Other ''axes[]'' ''scatter'',
        Other ''axes[]'' ''set_xlabel'', Other ''axes[]'' ''set_ylabel'',
        Pyemma ''plots'' ''plot_implied_timescales'', Other ''fig'' ''tight_layout''],
     Cell 43
       [Assign_stmt, Expr_stmt, Expr_stmt, Expr_stmt]
       [Other ''plt'' ''subplots'', Pyemma ''msm'' ''timescales_hmsm'',
        Pyemma ''plots'' ''plot_implied_timescales'', Pyemma ''msm'' ''timescales_hmsm'',
        Pyemma ''plots'' ''plot_implied_timescales'', Other ''fig'' ''tight_layout''],
     Cell 45
       [Assign_stmt, Expr_stmt]
       [Pyemma ''msm'' ''bayesian_hidden_markov_model'', Method ''hmm_4'' ''cktest'',
        Pyemma ''plots'' ''plot_cktest''],
     Cell 47
       [Assign_stmt, Expr_stmt]
       [Pyemma ''msm'' ''bayesian_hidden_markov_model'', Method ''hmm_6'' ''cktest'',
        Pyemma ''plots'' ''plot_cktest''],
     Cell 49
       [Assign_stmt, For_stmt, Assign_stmt, Expr_stmt, Expr_stmt, Expr_stmt, Assign_stmt,
        Expr_stmt, Expr_stmt, Expr_stmt]
       [Other ''plt'' ''subplots'', Other [] ''zip'', Other ''np'' ''concatenate'',
        Other ''mpl.cm'' ''get_cmap'', Other ''np'' ''arange'',
        Other ''mpl.colors'' ''BoundaryNorm'', Other ''ax'' ''scatter'',
        Other ''ax'' ''set_xlabel'', Other ''ax'' ''set_ylabel'', Other ''str'' ''format'',
        Other ''ax'' ''set_title'', Other ''fig'' ''colorbar'', Other ''cb'' ''set_label'',
        Other ''np'' ''arange'', Other ''cb'' ''set_ticks'', Other ''fig'' ''tight_layout''],
     Cell 51
       [Assign_stmt, Expr_stmt, Assign_stmt, Assign_stmt, Assign_stmt, Assign_stmt, Assign_stmt,
        Assign_stmt, Expr_stmt, Expr_stmt, Expr_stmt, Expr_stmt, Expr_stmt, Expr_stmt, Expr_stmt]
       [Method ''tica'' ''get_output'', Other ''np'' ''concatenate'', Pyemma ''msm'' ''its'',
        Other ''plt'' ''subplots'', Pyemma ''plots'' ''plot_feature_histograms'',
        Other ''axes[]'' ''scatter'', Other ''axes[]'' ''scatter'',
        Other ''axes[]'' ''set_xlabel'', Other ''axes[]'' ''set_ylabel'',
        Pyemma ''plots'' ''plot_implied_timescales'', Other ''fig'' ''tight_layout''],
     Cell 52
       [Assign_stmt, Expr_stmt, Assign_stmt, Assign_stmt, Assign_stmt, Assign_stmt, Assign_stmt,
        Assign_stmt, Expr_stmt, Expr_stmt, Expr_stmt, Expr_stmt, Expr_stmt, Expr_stmt, Expr_stmt]
       [Pyemma ''coordinates'' ''featurizer'', Method ''feat'' ''select_Heavy'',
        Method ''feat'' ''add_distances'', Pyemma ''coordinates'' ''load'',
        Pyemma ''coordinates'' ''tica'', Method ''tica'' ''get_output'',
        Other ''np'' ''concatenate'', Pyemma ''coordinates'' ''cluster_kmeans'',
        Pyemma ''msm'' ''its'', Other ''plt'' ''subplots'',
        Pyemma ''plots'' ''plot_feature_histograms'', Other ''axes[]'' ''scatter'',
        Other ''axes[]'' ''scatter'', Other ''axes[]'' ''set_xlabel'',
        Other ''axes[]'' ''set_ylabel'', Pyemma ''plots'' ''plot_implied_timescales'',
        Other ''fig'' ''tight_layout''],
     Cell 54
       [Expr_stmt]
       [],
     Cell 55
       [Expr_stmt]
       [Pyemma ''msm'' ''timescales_hmsm'', Pyemma ''plots'' ''plot_implied_timescales''],
     Cell 57
       [Assign_stmt, Expr_stmt]
       [],
     Cell 58
       [Assign_stmt, Expr_stmt]
       [Pyemma ''msm'' ''bayesian_hidden_markov_model'', Method ''hmm'' ''cktest'',
        Pyemma ''plots'' ''plot_cktest''],
     Cell 60
       []
       [],
     Cell 61
       [Def_stmt ''draw_panel'', Assign_stmt, Assign_stmt, Expr_stmt, Expr_stmt, Expr_stmt,
        Expr_stmt, Assign_stmt, Expr_stmt, Expr_stmt, Expr_stmt, Expr_stmt, Expr_stmt]
       [Other ''np'' ''concatenate'', Other ''mpl.cm'' ''get_cmap'', Other ''np'' ''arange'',
        Other ''mpl.colors'' ''BoundaryNorm'', Other ''ax'' ''scatter'',
        Other ''fig'' ''colorbar'', Other ''cb'' ''set_label'', Other ''np'' ''arange'',
        Other ''cb'' ''set_ticks'', Other ''str'' ''format'', Other ''ax'' ''set_xlabel'',
        Other ''str'' ''format'', Other ''ax'' ''set_ylabel'', Other ''plt'' ''subplots'',
        Other [] ''draw_panel'', Other [] ''draw_panel'', Other [] ''draw_panel'',
        Other ''axes[]'' ''set_axis_off'', Other ''fig'' ''tight_layout'']]\<rparr>"

definition nb06 :: notebook where
  "nb06 = \<lparr>title = ''06 - Expectations and Observables'', cells = [
     Cell 1
       [Magic_stmt ''%matplotlib inline'', Import_stmt ''matplotlib.pyplot'' ''plt'',
        Import_stmt ''numpy'' ''np'', Import_stmt ''mdshare'' ''mdshare'',
        Import_stmt ''pyemma'' ''pyemma'']
       [],
     Cell 3
       [Assign_stmt, With_stmt, Assign_stmt, Assign_stmt, Assign_stmt, Assign_stmt, Expr_stmt,
        Expr_stmt, Expr_stmt, Expr_stmt, Expr_stmt, Expr_stmt, Expr_stmt]
       [Fetch ''hmm-doublewell-2d-100k.npz'' ''data'', Other ''np'' ''load'',
        Pyemma ''coordinates'' ''cluster_kmeans'', Pyemma ''msm'' ''its'',
        Other ''plt'' ''subplots'', Pyemma ''plots'' ''plot_feature_histograms'',
        Other ''axes[]'' ''scatter'', Other ''axes[]'' ''scatter'',
        Other ''axes[]'' ''set_xlabel'', Other ''axes[]'' ''set_ylabel'',
        Pyemma ''plots'' ''plot_implied_timescales'', Other ''fig'' ''tight_layout''],
     Cell 4
       [Assign_stmt, Assign_stmt, Expr_stmt, Expr_stmt, Assign_stmt, Expr_stmt]
       [Pyemma ''msm'' ''estimate_markov_model'', Pyemma ''msm'' ''bayesian_markov_model'',
        Other ''str'' ''format'', Other [] ''print'', Other ''str'' ''format'',
        Other [] ''print'', Method ''msm'' ''cktest'', Pyemma ''plots'' ''plot_cktest''],
     Cell 6
       [Def_stmt ''observable'', Return_stmt, Assign_stmt, Assign_stmt]
       [Method ''msm'' ''pcca'', Other [] ''observable''],
     Cell 7
       [Assign_stmt, Expr_stmt, For_stmt, Assign_stmt, Expr_stmt, Expr_stmt, Expr_stmt, Expr_stmt,
        Expr_stmt, Expr_stmt]
       [Other ''plt'' ''subplots'', Other ''ax'' ''hist'', Other [] ''enumerate'',
        Other ''np'' ''isin'', Other ''np'' ''where'', Other ''str'' ''format'',
        Other ''ax'' ''hist'', Other ''ax'' ''legend'', Other ''ax'' ''set_xlabel'',
        Other ''ax'' ''set_ylabel'', Other ''ax'' ''set_xlim'', Other ''fig'' ''tight_layout''],
     Cell 9
       [Assign_stmt]
       [Other [] ''range'', Other ''ftraj[]'' ''mean'', Other ''np'' ''array''],
     Cell 11
       [Assign_stmt, Expr_stmt, Expr_stmt, Expr_stmt, Expr_stmt, Expr_stmt]
       [Other ''plt'' ''subplots'', Pyemma ''plots'' ''scatter_contour'',
        Other ''axes[]'' ''set_title'', Pyemma ''plots'' ''scatter_contour'',
        Other ''axes[]'' ''set_title'', Other ''fig'' ''tight_layout''],
     Cell 13
       [Expr_stmt]
       [Method ''msm'' ''expectation'', Other ''str'' ''format'', Other [] ''print''],
     Cell 15
       [Assign_stmt, Expr_stmt, Assign_stmt, Expr_stmt]
       [Method ''bayesian_msm'' ''sample_mean'', Other ''str'' ''format'', Other [] ''print'',
        Method ''bayesian_msm'' ''sample_conf'', Other ''str'' ''format'', Other [] ''print''],
     Cell 17
       [Def_stmt ''new_observable'', Return_stmt, Assign_stmt, Assign_stmt,
        Def_stmt ''is_within'', Return_stmt, Assign_stmt, Assign_stmt, Assign_stmt, Assign_stmt,
        Expr_stmt, Expr_stmt, Expr_stmt]
       [Other [] ''range'', Other ''ftraj[]'' ''mean'', Other ''np'' ''array'',
        Other ''str'' ''format'', Other [] ''print'', Other ''str'' ''format'',
        Other [] ''print'', Other [] ''is_within'', Other ''str'' ''format'', Other [] ''print''],
     Cell 18
       [Def_stmt ''new_observable'', Return_stmt, Assign_stmt, Assign_stmt,
        Def_stmt ''is_within'', Return_stmt, Assign_stmt, Assign_stmt, Assign_stmt, Assign_stmt,
        Expr_stmt, Expr_stmt, Expr_stmt]
       [Other [] ''new_observable'', Other [] ''range'', Other ''ftraj[]'' ''mean'',
        Other ''np'' ''array'', Method ''msm'' ''expectation'',
        Method ''bayesian_msm'' ''sample_mean'', Method ''bayesian_msm'' ''sample_conf'',
        Other ''str'' ''format'', Other [] ''print'', Other ''str'' ''format'',
        Other [] ''print'', Other [] ''is_within'', Other ''str'' ''format'', Other [] ''print''],
     Cell 20
       [Assign_stmt, Assign_stmt, Assign_stmt, Expr_stmt, Assign_stmt, Assign_stmt, Assign_stmt,
        Assign_stmt, Expr_stmt, Expr_stmt, Expr_stmt, Expr_stmt, Expr_stmt, Expr_stmt, Expr_stmt]
       [Fetch ''alanine-dipeptide-nowater.pdb'' ''data'',
        Fetch ''alanine-dipeptide-*-250ns-nowater.dcd'' ''data'',
        Pyemma ''coordinates'' ''featurizer'', Method ''feat'' ''add_backbone_torsions'',
        Pyemma ''coordinates'' ''load'', Pyemma ''coordinates'' ''cluster_kmeans'',
        Pyemma ''msm'' ''its'', Other ''plt'' ''subplots'', Other ''np'' ''concatenate'',
        Pyemma ''plots'' ''plot_feature_histograms'', Other ''np'' ''concatenate'',
        Other ''axes[]'' ''scatter'', Other ''axes[]'' ''scatter'',
        Other ''axes[]'' ''set_xlabel'', Other ''axes[]'' ''set_ylabel'',
        Pyemma ''plots'' ''plot_implied_timescales'', Other ''fig'' ''tight_layout''],
     Cell 21
       [Assign_stmt, Expr_stmt, Expr_stmt, Assign_stmt, Assign_stmt, Expr_stmt]
       [Pyemma ''msm'' ''estimate_markov_model'', Other ''str'' ''format'', Other [] ''print'',
        Other ''str'' ''format'', Other [] ''print'', Pyemma ''msm'' ''bayesian_markov_model'',
        Method ''bayesian_msm'' ''cktest'', Pyemma ''plots'' ''plot_cktest''],
     Cell 23
       [Assign_stmt, Expr_stmt, Expr_stmt, Assign_stmt, Def_stmt ''Karplus'', Return_stmt,
        Assign_stmt, Assign_stmt]
       [Pyemma ''coordinates'' ''featurizer'', Method ''feat2'' ''add_dihedrals'',
        Method ''feat2.topology'' ''atom'', Other ''str'' ''format'', Other [] ''print'',
        Pyemma ''coordinates'' ''load'', Other ''np'' ''cos'', Other ''np'' ''cos'',
        Other ''t'' ''ravel'', Other [] ''Karplus'', Other ''np'' ''hstack'',
        Other ''np'' ''hstack'', Other [] ''zip'', Other [] ''range'', Other ''ft[]'' ''mean'',
        Other ''np'' ''array''],
     Cell 25
       [Assign_stmt, Expr_stmt, Expr_stmt, Expr_stmt, Expr_stmt, Expr_stmt, Expr_stmt, Expr_stmt,
        Expr_stmt, Expr_stmt]
       [Other ''plt'' ''subplots'', Pyemma ''plots'' ''scatter_contour'',
        Other ''axes[]'' ''set_title'', Other ''axes[]'' ''set_xlabel'',
        Other ''axes[]'' ''set_ylabel'', Pyemma ''plots'' ''scatter_contour'',
        Other ''axes[]'' ''set_title'', Other ''axes[]'' ''set_xlabel'',
        Other ''axes[]'' ''set_ylabel'', Other ''fig'' ''tight_layout''],
     Cell 27
       [Expr_stmt, Expr_stmt]
       [Other ''str'' ''format'', Other [] ''print''],
     Cell 28
       [Assign_stmt, Expr_stmt]
       [Method ''msm'' ''expectation'', Other ''str'' ''format'', Other [] ''print''],
     Cell 30
       [Assign_stmt, Assign_stmt, Expr_stmt]
       [Other ''str'' ''format'', Other [] ''print''],
     Cell 31
       [Assign_stmt, Assign_stmt, Expr_stmt]
       [Method ''bayesian_msm'' ''sample_mean'', Method ''bayesian_msm'' ''sample_std'',
        Other ''str'' ''format'', Other [] ''print''],
     Cell 33
       [Assign_stmt, Assign_stmt, Assign_stmt, Expr_stmt, Expr_stmt, Assign_stmt, Assign_stmt,
        Assign_stmt, Assign_stmt, Assign_stmt, Assign_stmt, Expr_stmt, Expr_stmt, Expr_stmt]
       [Fetch ''pentapeptide-impl-solv.pdb'' ''data'',
        Fetch ''pentapeptide-*-500ns-impl-solv.xtc'' ''data'',
        Pyemma ''coordinates'' ''featurizer'', Method ''feat'' ''add_backbone_torsions'',
        Method ''feat'' ''add_sidechain_torsions'', Pyemma ''coordinates'' ''load'',
        Pyemma ''coordinates'' ''tica'', Method ''tica'' ''get_output'',
        Other ''np'' ''concatenate'', Pyemma ''coordinates'' ''cluster_kmeans'',
        Pyemma ''msm'' ''its'', Other ''plt'' ''subplots'',
        Pyemma ''plots'' ''plot_feature_histograms'',
        Pyemma ''plots'' ''plot_implied_timescales'', Other ''fig'' ''tight_layout''],
     Cell 34
       [Assign_stmt, Expr_stmt, Expr_stmt, Assign_stmt]
       [Pyemma ''msm'' ''estimate_markov_model'', Other ''str'' ''format'', Other [] ''print'',
        Other ''str'' ''format'', Other [] ''print'', Pyemma ''msm'' ''bayesian_markov_model''],
     Cell 35
       [Assign_stmt, Expr_stmt, Assign_stmt]
       [Method ''bayesian_msm'' ''cktest'', Pyemma ''plots'' ''plot_cktest'',
        Method ''msm'' ''coarse_grain''],
     Cell 37
       [ImportFrom_stmt ''mdtraj'' ''shrake_rupley'']
       [],
     Cell 39
       [Assign_stmt]
       [Method ''msm'' ''sample_by_state'', Save_traj None],
     Cell 40
       [Assign_stmt]
       [Other [] ''shrake_rupley'', Other ''shrake_rupley()[]'' ''mean''],
     Cell 42
       [Assign_stmt, Assign_stmt, Assign_stmt, Assign_stmt, Expr_stmt, Expr_stmt, Expr_stmt,
        Expr_stmt, Expr_stmt, Expr_stmt, Expr_stmt, Expr_stmt, Expr_stmt]
       [Method ''msm'' ''correlation'', Other ''np'' ''array'',
        Method ''bayesian_msm'' ''sample_mean'', Other ''np'' ''array'',
        Method ''bayesian_msm'' ''sample_conf'', Other ''plt'' ''subplots'',
        Other ''ax'' ''plot'', Other ''ax'' ''plot'', Other ''ax'' ''fill_between'',
        Other ''ax'' ''semilogx'', Other ''ax'' ''set_xlim'', Other ''ax'' ''set_xlabel'',
        Other ''ax'' ''set_ylabel'', Other ''ax'' ''legend'', Other ''fig'' ''tight_layout''],
     Cell 44
       [Assign_stmt, Assign_stmt, Assign_stmt, Assign_stmt, Expr_stmt, Expr_stmt, Expr_stmt,
        Expr_stmt, Expr_stmt, Expr_stmt, Expr_stmt, Expr_stmt, Expr_stmt]
       [Method ''msm'' ''relaxation'', Other ''np'' ''array'',
        Method ''bayesian_msm'' ''sample_mean'', Other ''np'' ''array'',
        Method ''bayesian_msm'' ''sample_conf'', Other ''plt'' ''subplots'',
        Other ''ax'' ''semilogx'', Other ''ax'' ''plot'', Other ''ax'' ''fill_between'',
        Other ''ax'' ''semilogx'', Other ''ax'' ''set_xlim'', Other ''ax'' ''set_xlabel'',
        Other ''ax'' ''set_ylabel'', Other ''ax'' ''legend'', Other ''fig'' ''tight_layout''],
     Cell 46
       []
       [],
     Cell 47
       [Assign_stmt, Assign_stmt, Assign_stmt, Assign_stmt, Expr_stmt, Expr_stmt, Expr_stmt,
        Expr_stmt, Expr_stmt, Expr_stmt, Expr_stmt, Expr_stmt, Expr_stmt]
       [Method ''msm'' ''relaxation'', Other ''np'' ''array'',
        Method ''bayesian_msm'' ''sample_mean'', Other ''np'' ''array'',
        Method ''bayesian_msm'' ''sample_conf'', Other ''plt'' ''subplots'',
        Other ''ax'' ''semilogx'', Other ''ax'' ''plot'', Other ''ax'' ''fill_between'',
        Other ''ax'' ''semilogx'', Other ''ax'' ''set_xlim'', Other ''ax'' ''set_xlabel'',
        Other ''ax'' ''set_ylabel'', Other ''ax'' ''legend'', Other ''fig'' ''tight_layout''],
     Cell 49
       [Def_stmt ''new_observable'', Return_stmt, Assign_stmt, Expr_stmt]
       [Other ''timescales[]'' ''dot'', Other [] ''new_observable'', Other ''str'' ''format'',
        Other [] ''print''],
     Cell 50
       [Def_stmt ''new_observable'', Return_stmt, Assign_stmt, Expr_stmt]
       [Other ''timescales[]'' ''dot'', Method ''msm'' ''fingerprint_correlation'',
        Other [] ''new_observable'', Other ''str'' ''format'', Other [] ''print'']]\<rparr>"

definition nb07 :: notebook where
  "nb07 = \<lparr>title = ''07 - common problems & bad data situations'', cells = [
     Cell 1
       [Magic_stmt ''%matplotlib inline'', Import_stmt ''matplotlib.pyplot'' ''plt'',
        Import_stmt ''numpy'' ''np'', Import_stmt ''mdshare'' ''mdshare'',
        Import_stmt ''pyemma'' ''pyemma'']
       [],
     Cell 3
       [Assign_stmt, With_stmt, Assign_stmt, Assign_stmt]
       [Fetch ''hmm-doublewell-2d-100k.npz'' ''data'', Other ''np'' ''load'',
        Pyemma ''coordinates'' ''tica'', Method ''pyemma.coordinates.tica()'' ''get_output''],
     Cell 4
       [Def_stmt ''plot_1D_histogram_trajectories'', If_stmt, Assign_stmt, For_stmt, Expr_stmt,
        Assign_stmt, Assign_stmt, For_stmt, Expr_stmt, If_stmt, Expr_stmt, Expr_stmt, Expr_stmt,
        Expr_stmt, Expr_stmt, Expr_stmt]
       [Other ''plt'' ''subplots'', Other [] ''enumerate'', Other ''str'' ''format'',
        Other ''ax'' ''hist'', Other ''ax'' ''get_ylim'', Other ''ax'' ''get_xlim'',
        Other [] ''enumerate'', Other [] ''len'', Other [] ''min'', Other [] ''len'',
        Other [] ''min'', Other ''np'' ''linspace'', Other ''str'' ''format'',
        Other ''str'' ''format'', Other ''ax'' ''plot'', Other [] ''len'', Other [] ''min'',
        Other [] ''len'', Other [] ''min'', Other ''np'' ''linspace'', Other ''str'' ''format'',
        Other ''ax'' ''plot'', Other [] ''dict'', Other ''ax'' ''annotate'',
        Other ''ax'' ''text'', Other ''ax'' ''set_xlabel'', Other ''ax'' ''set_ylabel'',
        Other ''ax'' ''legend''],
     Cell 5
       [Assign_stmt, Assign_stmt, Expr_stmt, Assign_stmt, Assign_stmt, Expr_stmt, Expr_stmt]
       [Other ''plt'' ''subplots'', Pyemma ''coordinates'' ''cluster_regspace'',
        Other [] ''plot_1D_histogram_trajectories'', Other [] ''range'', Pyemma ''msm'' ''its'',
        Pyemma ''plots'' ''plot_implied_timescales'', Other ''fig'' ''tight_layout''],
     Cell 8
       [Assign_stmt, Assign_stmt]
       [Fetch ''doublewell_oneway.npy'' ''data'', Other ''np'' ''load''],
     Cell 9
       [Expr_stmt]
       [Other [] ''plot_1D_histogram_trajectories''],
     Cell 11
       [Assign_stmt, Assign_stmt, Expr_stmt]
       [Pyemma ''coordinates'' ''cluster_regspace'', Pyemma ''coordinates'' ''cluster_regspace'',
        Other [] ''print''],
     Cell 12
       [Assign_stmt, For_stmt, Expr_stmt, Assign_stmt, Expr_stmt, Expr_stmt]
       [Other ''plt'' ''subplots'', Other [] ''zip'', Other [] ''plot_1D_histogram_trajectories'',
        Pyemma ''msm'' ''its'', Pyemma ''plots'' ''plot_implied_timescales'',
        Other ''fig'' ''tight_layout''],
     Cell 14
       [Assign_stmt, Assign_stmt, Expr_stmt, Assign_stmt, Expr_stmt, Expr_stmt, Expr_stmt,
        Expr_stmt, Expr_stmt]
       [Pyemma ''msm'' ''estimate_markov_model'', Other ''plt'' ''subplots'',
        Method ''msm'' ''eigenvectors_right'', Other ''ax'' ''plot'', Other ''ax'' ''twinx'',
        Other ''np'' ''concatenate'', Other ''tx'' ''hist'', Other ''tx'' ''set_yticklabels'',
        Other ''tx'' ''set_yticks'', Other ''fig'' ''legend'', Other ''fig'' ''tight_layout''],
     Cell 16
       [Expr_stmt]
       [Other [] ''print''],
     Cell 18
       [Assign_stmt, Assign_stmt]
       [Fetch ''doublewell_disconnected.npy'' ''data'', Other ''np'' ''load''],
     Cell 19
       [Expr_stmt]
       [Other [] ''plot_1D_histogram_trajectories''],
     Cell 20
       [Assign_stmt, Assign_stmt, Expr_stmt]
       [Pyemma ''coordinates'' ''cluster_regspace'', Pyemma ''coordinates'' ''cluster_regspace'',
        Other [] ''print''],
     Cell 21
       [Assign_stmt, For_stmt, Expr_stmt, Assign_stmt, Expr_stmt, Expr_stmt]
       [Other ''plt'' ''subplots'', Other [] ''zip'', Other [] ''plot_1D_histogram_trajectories'',
        Pyemma ''msm'' ''its'', Pyemma ''plots'' ''plot_implied_timescales'',
        Other ''fig'' ''tight_layout''],
     Cell 23
       [Assign_stmt, Expr_stmt, Assign_stmt, Assign_stmt, Expr_stmt, Expr_stmt, For_stmt,
        Expr_stmt, Expr_stmt, Expr_stmt, Expr_stmt, For_stmt, Assign_stmt, Expr_stmt, Expr_stmt,
        Expr_stmt, Expr_stmt, Expr_stmt]
       [Pyemma ''msm'' ''estimate_markov_model'', Method ''msm'' ''pcca'',
        Other ''np'' ''argsort'', Other ''plt'' ''subplots'',
        Method ''msm'' ''eigenvectors_right'', Other ''ax[]'' ''plot'',
        Other ''ax[]'' ''set_title'', Other [] ''enumerate'', Other ''str'' ''format'',
        Other ''ax[]'' ''step'', Other ''ax[]'' ''set_title'', Other ''ax[]'' ''step'',
        Other ''ax[]'' ''set_title'', Other ''_ax'' ''twinx'', Other ''np'' ''concatenate'',
        Other ''tx'' ''hist'', Other ''tx'' ''set_yticklabels'', Other ''tx'' ''set_yticks'',
        Other ''fig'' ''legend'', Other ''fig'' ''tight_layout''],
     Cell 25
       [Assign_stmt]
       [Method ''msm'' ''coarse_grain''],
     Cell 27
       [Assign_stmt, Expr_stmt]
       [Pyemma ''msm'' ''timescales_hmsm'', Pyemma ''plots'' ''plot_implied_timescales''],
     Cell 30
       [Assign_stmt, Assign_stmt, Assign_stmt, Expr_stmt, Assign_stmt]
       [Fetch ''alanine-dipeptide-nowater.pdb'' ''data'',
        Fetch ''alanine-dipeptide-*-250ns-nowater.dcd'' ''data'',
        Pyemma ''coordinates'' ''featurizer'', Method ''feat'' ''add_all'',
        Pyemma ''coordinates'' ''load''],
     Cell 32
       [Assign_stmt, Assign_stmt]
       [Pyemma ''coordinates'' ''tica'', Method ''tica'' ''get_output''],
     Cell 33
       [Expr_stmt]
       [Other ''np'' ''concatenate'', Pyemma ''plots'' ''plot_free_energy''],
     Cell 35
       [Assign_stmt]
       [Pyemma ''coordinates'' ''cluster_kmeans''],
     Cell 36
       [Assign_stmt, Expr_stmt]
       [Pyemma ''msm'' ''its'', Pyemma ''plots'' ''plot_implied_timescales''],
     Cell 38
       [Assign_stmt, Expr_stmt]
       [Pyemma ''msm'' ''estimate_markov_model'', Method ''msm'' ''pcca''],
     Cell 39
       [Assign_stmt, Assign_stmt, Assign_stmt, Expr_stmt]
       [Other ''np'' ''concatenate'', Other ''np'' ''concatenate'', Other ''plt'' ''scatter''],
     Cell 41
       [Expr_stmt]
       [Method ''msm'' ''cktest'', Pyemma ''plots'' ''plot_cktest''],
     Cell 43
       [Assign_stmt, Assign_stmt, For_stmt, Expr_stmt, Expr_stmt, Expr_stmt, Expr_stmt, Expr_stmt,
        Expr_stmt, Expr_stmt, Expr_stmt]
       [Other ''plt'' ''subplots'', Other [] ''enumerate'', Other [] ''len'', Other [] ''range'',
        Other ''ax'' ''plot'', Other [] ''len'', Other [] ''range'', Other ''ax'' ''scatter'',
        Other ''ax_yticks_labels'' ''append'', Other ''ax'' ''set_yticks'', Other [] ''str'',
        Other ''ax'' ''set_yticklabels'', Other ''ax'' ''set_ylabel'', Other ''str'' ''format'',
        Other ''ax'' ''set_xlabel'', Other ''fig'' ''tight_layout''],
     Cell 45
       [Assign_stmt, For_stmt, For_stmt, Expr_stmt, For_stmt, Expr_stmt, For_stmt, Expr_stmt,
        For_stmt, Expr_stmt, Expr_stmt]
       [Other ''plt'' ''subplots'', Other [] ''enumerate'', Other [] ''enumerate'',
        Other ''axes[]'' ''plot'', Other ''str'' ''format'', Other ''ax'' ''set_xlabel'',
        Other [] ''enumerate'', Other ''str'' ''format'', Other ''ax'' ''set_ylabel'',
        Other [] ''enumerate'', Other ''str'' ''format'', Other ''ax'' ''set_title'',
        Other ''fig'' ''tight_layout''],
     Cell 47
       [Assign_stmt, Assign_stmt, Assign_stmt]
       [Pyemma ''coordinates'' ''tica'', Method ''tica'' ''get_output'',
        Pyemma ''coordinates'' ''cluster_kmeans''],
     Cell 48
       [Expr_stmt]
       [Other ''np'' ''concatenate'', Pyemma ''plots'' ''plot_free_energy''],
     Cell 50
       [Assign_stmt, Expr_stmt]
       [Pyemma ''msm'' ''estimate_markov_model'', Method ''msm'' ''pcca''],
     Cell 51
       [Assign_stmt]
       [],
     Cell 52
       [Assign_stmt, Assign_stmt, Expr_stmt]
       [Other ''np'' ''concatenate'', Other ''np'' ''concatenate'', Other ''plt'' ''scatter''],
     Cell 54
       [Assign_stmt, Assign_stmt, For_stmt, Expr_stmt, Expr_stmt, Expr_stmt, Expr_stmt, Expr_stmt,
        Expr_stmt, Expr_stmt, Expr_stmt]
       [Other ''plt'' ''subplots'', Other [] ''enumerate'', Other [] ''len'', Other [] ''range'',
        Other ''ax'' ''plot'', Other [] ''len'', Other [] ''range'', Other ''ax'' ''scatter'',
        Other ''ax_yticks_labels'' ''append'', Other ''ax'' ''set_yticks'', Other [] ''str'',
        Other ''ax'' ''set_yticklabels'', Other ''ax'' ''set_ylabel'', Other ''str'' ''format'',
        Other ''ax'' ''set_xlabel'', Other ''fig'' ''tight_layout'']]\<rparr>"

definition nb_vamp :: notebook where
  "nb_vamp = \<lparr>title = ''VAMP score based feature selection'', cells = [
     Cell 1
       [Magic_stmt ''%matplotlib inline'', Import_stmt ''matplotlib.pyplot'' ''plt'',
        Import_stmt ''numpy'' ''np'', Import_stmt ''mdshare'' ''mdshare'',
        Import_stmt ''pyemma'' ''pyemma'']
       [],
     Cell 3
       [Assign_stmt, With_stmt, Assign_stmt, Assign_stmt]
       [Fetch ''hmm-doublewell-2d-100k.npz'' ''data'', Other ''np'' ''load''],
     Cell 5
       [Assign_stmt, Assign_stmt, Expr_stmt]
       [Pyemma ''plots'' ''plot_free_energy''],
     Cell 6
       [Assign_stmt, Assign_stmt, Expr_stmt]
       [Pyemma ''coordinates'' ''vamp'', Method ''vamp'' ''score''],
     Cell 7
       [Assign_stmt, Assign_stmt, Expr_stmt]
       [Pyemma ''coordinates'' ''vamp'', Method ''vamp'' ''score''],
     Cell 8
       [Assign_stmt, Assign_stmt, Expr_stmt]
       [Pyemma ''coordinates'' ''vamp'', Method ''vamp'' ''score''],
     Cell 9
       [Expr_stmt]
       [Other [] ''print''],
     Cell 12
       [Assign_stmt, Assign_stmt, Expr_stmt, Expr_stmt]
       [Fetch ''alanine-dipeptide-nowater.pdb'' ''data'',
        Fetch ''alanine-dipeptide-*-250ns-nowater.dcd'' ''data'', Other [] ''print'',
        Other [] ''print''],
     Cell 14
       [Assign_stmt]
       [],
     Cell 15
       [Assign_stmt, Expr_stmt, Assign_stmt, Expr_stmt]
       [Pyemma ''coordinates'' ''source'',
        Method ''reader_rmsd.featurizer'' ''add_minrmsd_to_ref'', Pyemma ''coordinates'' ''vamp'',
        Method ''vamp_minRMSD'' ''score''],
     Cell 17
       [Assign_stmt, Expr_stmt, Assign_stmt, Expr_stmt]
       [Pyemma ''coordinates'' ''source'',
        Method ''reader_bt.featurizer'' ''add_backbone_torsions'',
        Pyemma ''coordinates'' ''vamp'', Method ''vamp_bt'' ''score''],
     Cell 19
       [Assign_stmt, Expr_stmt]
       [Method ''reader_rmsd'' ''get_output'', Other ''np'' ''concatenate'',
        Pyemma ''plots'' ''plot_feature_histograms'', Other ''ax'' ''set_title''],
     Cell 21
       [Assign_stmt]
       [Pyemma ''coordinates'' ''cluster_kmeans''],
     Cell 23
       [Assign_stmt, Assign_stmt, Expr_stmt]
       [Pyemma ''msm'' ''its'', Pyemma ''plots'' ''plot_implied_timescales'',
        Other ''ax'' ''set_title''],
     Cell 25
       [Assign_stmt, Expr_stmt]
       [Pyemma ''msm'' ''estimate_markov_model'', Method ''msm_rmsd'' ''score''],
     Cell 26
       [Assign_stmt]
       [Pyemma ''coordinates'' ''cluster_kmeans''],
     Cell 27
       [Assign_stmt, Expr_stmt]
       [Pyemma ''msm'' ''its'', Pyemma ''plots'' ''plot_implied_timescales''],
     Cell 29
       [Assign_stmt, Expr_stmt]
       [Pyemma ''msm'' ''estimate_markov_model'', Method ''msm_bt'' ''score''],
     Cell 32
       [Assign_stmt, Assign_stmt, Assign_stmt, Assign_stmt, Assign_stmt, Assign_stmt]
       [Fetch ''pentapeptide-impl-solv.pdb'' ''data'',
        Fetch ''pentapeptide-*-500ns-impl-solv.xtc'' ''data'',
        Pyemma ''coordinates'' ''featurizer'', Pyemma ''coordinates'' ''source''],
     Cell 33
       [Assign_stmt, Assign_stmt, Assign_stmt, Assign_stmt, Assign_stmt, Assign_stmt,
        Def_stmt ''test_feature'', Assign_stmt, Expr_stmt, Expr_stmt, Assign_stmt, Assign_stmt,
        Return_stmt, Assign_stmt, Assign_stmt, Assign_stmt, For_stmt, Expr_stmt, Assign_stmt,
        Assign_stmt, Assign_stmt, For_stmt, Expr_stmt, Expr_stmt, Expr_stmt, Expr_stmt, Expr_stmt]
       [Fetch ''pentapeptide-impl-solv.pdb'' ''data'',
        Fetch ''pentapeptide-*-500ns-impl-solv.xtc'' ''data'',
        Pyemma ''coordinates'' ''featurizer'', Pyemma ''coordinates'' ''source'',
        Other [] ''getattr'', Other [] ''getattr()'', Method ''feat'' ''dimension'',
        Other [] ''print'', Method ''feat'' ''dimension'', Other [] ''min'',
        Pyemma ''coordinates'' ''vamp'', Method ''v'' ''score'', Other ''np'' ''arange'',
        Method ''feat'' ''pairs'', Other [] ''dict'', Method ''feat.topology'' ''select'',
        Other [] ''print'', Other [] ''test_feature'', Other ''plt'' ''subplots'',
        Other ''results'' ''items'', Other [] ''enumerate'', Other ''ax'' ''bar'',
        Other ''ax'' ''legend'', Other ''ax'' ''set_ylabel'', Other ''ax'' ''set_xticks'',
        Other ''str'' ''format'', Other ''ax'' ''set_title''],
     Cell 36
       [Assign_stmt, Assign_stmt, Assign_stmt, Expr_stmt, Assign_stmt,
        Def_stmt ''score_discretization'', Expr_stmt, Assign_stmt, Expr_stmt, Assign_stmt,
        Assign_stmt, Assign_stmt, Assign_stmt, Assign_stmt, Expr_stmt, Assign_stmt, Expr_stmt,
        For_stmt, Assign_stmt, Assign_stmt, Expr_stmt, Assign_stmt, For_stmt, Assign_stmt,
        Expr_stmt, Expr_stmt, Expr_stmt, Expr_stmt, Expr_stmt, Expr_stmt]
       [Pyemma ''coordinates'' ''vamp'', Method ''pyemma.coordinates.vamp()'' ''get_output'',
        Method ''cl'' ''estimate'', Method ''cl'' ''assign'',
        Pyemma ''msm'' ''estimate_markov_model'', Other [] ''min'', Method ''msm'' ''???'',
        Method ''msm'' ''???'', Other ''results_msm'' ''append'',
        Pyemma ''coordinates'' ''cluster_kmeans'', Other [] ''score_discretization'',
        Other ''np.random'' ''randint'', Other [] ''score_discretization'',
        Other ''plt'' ''subplots'', Other [] ''enumerate'', Other ''scores_cv'' ''mean'',
        Other ''scores_cv'' ''std'', Other ''ax'' ''errorbar'', Other ''ax'' ''scatter'',
        Other ''ax'' ''set_xlabel'', Other ''ax'' ''set_ylabel'', Other ''ax'' ''set_title'',
        Other ''ax'' ''legend''],
     Cell 37
       [Assign_stmt, Assign_stmt, Assign_stmt, Expr_stmt, Assign_stmt,
        Def_stmt ''score_discretization'', Expr_stmt, Assign_stmt, Expr_stmt, Assign_stmt,
        Assign_stmt, Assign_stmt, Assign_stmt, Assign_stmt, Expr_stmt, Assign_stmt, Expr_stmt,
        For_stmt, Assign_stmt, Assign_stmt, Expr_stmt, Assign_stmt, For_stmt, Assign_stmt,
        Expr_stmt, Expr_stmt, Expr_stmt, Expr_stmt, Expr_stmt, Expr_stmt]
       [Method ''feat'' ''add_distances'', Pyemma ''coordinates'' ''vamp'',
        Method ''pyemma.coordinates.vamp()'' ''get_output'', Method ''cl'' ''estimate'',
        Method ''cl'' ''assign'', Pyemma ''msm'' ''estimate_markov_model'', Other [] ''min'',
        Method ''msm'' ''score_cv'', Method ''msm'' ''score'', Other ''results_msm'' ''append'',
        Pyemma ''coordinates'' ''cluster_kmeans'', Other [] ''score_discretization'',
        Other ''np.random'' ''randint'', Other [] ''score_discretization'',
        Other ''plt'' ''subplots'', Other [] ''enumerate'', Other ''scores_cv'' ''mean'',
        Other ''scores_cv'' ''std'', Other ''ax'' ''errorbar'', Other ''ax'' ''scatter'',
        Other ''ax'' ''set_xlabel'', Other ''ax'' ''set_ylabel'', Other ''ax'' ''set_title'',
        Other ''ax'' ''legend'']]\<rparr>"

definition notebooks :: "notebook list" where
  "notebooks = [nb01, nb02, nb03, nb05, nb06, nb07, nb_vamp]"

subsection \<open>Reading the scripts\<close>

definition all_calls :: "notebook \<Rightarrow> call list" where
  "all_calls nb = concat (map calls (cells nb))"

definition all_stmts :: "notebook \<Rightarrow> stmt list" where
  "all_stmts nb = concat (map stmts (cells nb))"

definition fetches :: "notebook \<Rightarrow> (string \<times> string) list" where
  "fetches nb = [(p, d). Fetch p d \<leftarrow> all_calls nb]"

definition timers :: "notebook \<Rightarrow> nat list" where
  "timers nb = [n. Timer_start n \<leftarrow> all_calls nb]"




text \<open>The file type of a dataset: what follows the last dot of its name.\<close>

definition extension :: "string \<Rightarrow> string" where
  "extension p = rev (takeWhile (\<lambda>c. c \<noteq> CHR ''.'') (rev p))"

text \<open>The name that a call goes by, \<open>savefig\<close> for \<^verbatim>\<open>fig.savefig(...)\<close>.\<close>

definition callee :: "call \<Rightarrow> string" where
  "callee c =
     (case c of
        Fetch p d \<Rightarrow> ''fetch''
      | Pyemma m f \<Rightarrow> f
      | Method r f \<Rightarrow> f
      | Save_traj out \<Rightarrow> ''save_traj''
      | Timer_start n \<Rightarrow> ''start''
      | Other r f \<Rightarrow> f)"

subsection \<open>Where a call goes\<close>

text \<open>
  The name at the head of a dotted expression: \<open>os\<close> for \<open>os.path\<close>, \<open>axes\<close> for \<open>axes[]\<close>.
\<close>

definition root_name :: "string \<Rightarrow> string" where
  "root_name r = takeWhile (\<lambda>c. c \<notin> set ''.[('') r"

text \<open>
  The names that a notebook binds itself: \<^verbatim>\<open>import m as a\<close> binds \<open>a\<close> to the module
  \<open>m\<close>, \<^verbatim>\<open>from m import f\<close> binds \<open>f\<close> to a member of \<open>m\<close>, and \<^verbatim>\<open>def f\<close> binds \<open>f\<close> to
  a function of the notebook.
\<close>

record scope =
  aliases :: "(string \<times> string) list"
  members :: "(string \<times> string) list"
  defs :: "string list"

definition scope_of :: "notebook \<Rightarrow> scope" where
  "scope_of nb =
     \<lparr>aliases = [(a, m). Import_stmt m a \<leftarrow> all_stmts nb],
      members = [(f, m). ImportFrom_stmt m f \<leftarrow> all_stmts nb],
      defs = [f. Def_stmt f \<leftarrow> all_stmts nb]\<rparr>"

text \<open>The builtin functions of Python that the notebooks call.\<close>

definition builtins :: "string list" where
  "builtins =
     [''print'', ''range'', ''enumerate'', ''len'', ''zip'', ''min'', ''abs'', ''dict'', ''str'',
      ''getattr'', ''type'']"

text \<open>
  The variables on which the notebooks call methods other than the library's, with the
  module whose objects they hold: figures, axes and colour bars
  (\<^verbatim>\<open>fig, ax = plt.subplots()\<close>, \<^verbatim>\<open>tx = ax.twinx()\<close>, \<^verbatim>\<open>cb = fig.colorbar(...)\<close>), the
  molecule viewer (\<^verbatim>\<open>widget = nglview.show_mdtraj(...)\<close>), Python lists, dictionaries and
  string literals, and numpy arrays.
\<close>

definition object_owner :: "(string \<times> string) list" where
  "object_owner =
     [(''ax'', ''matplotlib''), (''axes'', ''matplotlib''), (''fig'', ''matplotlib''),
      (''cb'', ''matplotlib''), (''tx'', ''matplotlib''), (''_ax'', ''matplotlib''),
      (''widget'', ''nglview''),
      (''str'', ''builtins''), (''ax_yticks_labels'', ''builtins''), (''results'', ''builtins''),
      (''results_msm'', ''builtins''),
      (''ftraj'', ''numpy''), (''ft'', ''numpy''), (''t'', ''numpy''), (''timescales'', ''numpy''),
      (''scores_cv'', ''numpy''), (''centers_pca'', ''numpy''), (''centers_tica'', ''numpy'')]"

text \<open>
  The module that a call goes to, \<open>notebook\<close> for a function that the notebook defines
  and \<open>None\<close> for a name that nothing in the notebook binds. The library's calls need
  \<open>pyemma\<close> imported, the fetches \<open>mdshare\<close>, the timer \<open>Timer\<close>; any other call is
  looked up by the root of its receiver, or by its own name when it has no receiver.
\<close>

fun origin :: "scope \<Rightarrow> call \<Rightarrow> string option" where
  "origin sc (Fetch p d) = map_of (aliases sc) ''mdshare''"
| "origin sc (Pyemma m f) = map_of (aliases sc) ''pyemma''"
| "origin sc (Method r f) = map_of (aliases sc) ''pyemma''"
| "origin sc (Save_traj out) = map_of (aliases sc) ''pyemma''"
| "origin sc (Timer_start n) = map_of (members sc) ''Timer''"
| "origin sc (Other r f) =
     (let x = root_name (if r = [] then f else r) in
      if r = [] \<and> x \<in> set (defs sc) then Some ''notebook''
      else case map_of (members sc) x of
        Some m \<Rightarrow> Some m
      | None \<Rightarrow>
         (case map_of (aliases sc) x of
            Some m \<Rightarrow> Some m
          | None \<Rightarrow>
             if r = [] then (if x \<in> set builtins then Some ''builtins'' else None)
             else map_of object_owner x))"

subsection \<open>What a call does\<close>

text \<open>
  What the functions that the notebooks call do, as far as the properties below need it:
  compute a value, read a file, fetch a dataset into the working directory, draw on a
  figure, print text, show a molecule viewer, start a timer thread, or write a file.
\<close>

datatype effect =
  Computes | Reads | Fetches | Plots | Prints | Shows | Starts_timer | Writes

text \<open>
  Every function that some notebook calls, by the module it belongs to and with the most
  used first, with what it does according to the documentation of its module. Methods
  stand under the module whose object they are called on (\<open>select\<close> and \<open>atom\<close> are
  methods of the topology that a featurizer of the library holds), \<open>getattr()\<close> is the
  call of what \<open>getattr\<close> returned, and \<open>???\<close> is the method name left open in an
  exercise. A function that is not listed has no known effect.
\<close>

definition api :: "(string \<times> (string \<times> effect) list) list" where
  "api = [
     (''pyemma'',
       [(''plot_feature_histograms'', Plots), (''get_output'', Computes),
        (''plot_implied_timescales'', Plots), (''featurizer'', Reads), (''load'', Reads),
        (''cluster_kmeans'', Computes), (''its'', Computes), (''cktest'', Computes),
        (''plot_cktest'', Plots), (''dimension'', Computes), (''describe'', Computes),
        (''estimate_markov_model'', Computes), (''plot_free_energy'', Plots),
        (''tica'', Computes), (''add_backbone_torsions'', Computes),
        (''bayesian_markov_model'', Computes), (''score'', Computes),
        (''cluster_regspace'', Computes), (''timescales'', Computes), (''vamp'', Computes),
        (''pca'', Computes), (''timescales_hmsm'', Computes), (''sample_mean'', Computes),
        (''sample_conf'', Computes), (''select_Heavy'', Computes), (''source'', Reads),
        (''add_distances'', Computes), (''add_selection'', Computes),
        (''add_sidechain_torsions'', Computes), (''assign_to_centers'', Computes),
        (''coarse_grain'', Computes), (''pcca'', Computes), (''scatter_contour'', Plots),
        (''bayesian_hidden_markov_model'', Computes),
        (''estimate_hidden_markov_model'', Computes), (''expectation'', Computes),
        (''???'', Computes), (''assign'', Computes), (''eigenvectors_right'', Computes),
        (''estimate'', Computes), (''relaxation'', Computes), (''add_all'', Computes),
        (''add_dihedrals'', Computes), (''add_distances_ca'', Computes),
        (''add_minrmsd_to_ref'', Computes), (''add_residue_mindist'', Computes),
        (''atom'', Computes), (''correlation'', Computes),
        (''fingerprint_correlation'', Computes), (''pairs'', Computes),
        (''sample_by_state'', Computes), (''sample_std'', Computes), (''score_cv'', Computes),
        (''select'', Computes), (''select_Backbone'', Computes), (''select_Ca'', Computes)]),
     (''matplotlib'',
       [(''tight_layout'', Plots), (''scatter'', Plots), (''set_ylabel'', Plots),
        (''set_xlabel'', Plots), (''set_title'', Plots), (''plot'', Plots), (''legend'', Plots),
        (''set_ylim'', Plots), (''hist'', Plots), (''semilogx'', Plots), (''colorbar'', Plots),
        (''set_label'', Plots), (''set_xlim'', Plots), (''set_yticklabels'', Plots),
        (''set_yticks'', Plots), (''BoundaryNorm'', Plots), (''fill_between'', Plots),
        (''get_cmap'', Plots), (''set_ticks'', Plots), (''annotate'', Plots),
        (''errorbar'', Plots), (''step'', Plots), (''twinx'', Plots), (''bar'', Plots),
        (''get_xlim'', Plots), (''get_ylim'', Plots), (''set_axis_off'', Plots),
        (''set_xticks'', Plots), (''text'', Plots)]),
     (''builtins'',
       [(''format'', Computes), (''print'', Prints), (''range'', Computes),
        (''enumerate'', Computes), (''len'', Computes), (''zip'', Computes),
        (''min'', Computes), (''abs'', Computes), (''append'', Computes), (''dict'', Computes),
        (''str'', Computes), (''getattr'', Computes), (''getattr()'', Computes),
        (''items'', Computes), (''type'', Computes)]),
     (''numpy'',
       [(''concatenate'', Computes), (''array'', Computes), (''load'', Reads),
        (''arange'', Computes), (''mean'', Computes), (''linspace'', Computes),
        (''asarray'', Computes), (''cos'', Computes), (''dot'', Computes),
        (''hstack'', Computes), (''max'', Computes), (''min'', Computes),
        (''randint'', Computes), (''reshape'', Computes), (''std'', Computes),
        (''argsort'', Computes), (''isin'', Computes), (''ravel'', Computes),
        (''where'', Computes)]),
     (''matplotlib.pyplot'',
       [(''subplots'', Plots), (''scatter'', Plots), (''plot'', Plots), (''xlabel'', Plots),
        (''ylabel'', Plots)]),
     (''mdshare'',
       [(''fetch'', Fetches)]),
     (''notebook'',
       [(''plot_1D_histogram_trajectories'', Plots), (''score_discretization'', Computes),
        (''draw_panel'', Plots), (''new_observable'', Computes), (''is_within'', Computes),
        (''Karplus'', Computes), (''observable'', Computes), (''test_feature'', Computes)]),
     (''mdtraj'',
       [(''load'', Reads), (''mean'', Computes), (''shrake_rupley'', Computes)]),
     (''nglview'',
       [(''show_mdtraj'', Shows), (''add_ball_and_stick'', Shows)]),
     (''os'',
       [(''join'', Computes)]),
     (''nglview.player'',
       [(''TrajectoryPlayer'', Shows)]),
     (''threading'',
       [(''start'', Starts_timer)])]"

text \<open>
  What a call does when it goes to the module \<open>m\<close>. \<open>save_traj\<close> reads the sampled
  frames from the trajectory files, and writes them to \<open>outfile\<close> when it is given one.
\<close>

definition effect_in :: "string \<Rightarrow> call \<Rightarrow> effect option" where
  "effect_in m c =
     (case c of
        Save_traj out \<Rightarrow> Some (if out = None then Reads else Writes)
      | _ \<Rightarrow> (case map_of api m of None \<Rightarrow> None | Some fs \<Rightarrow> map_of fs (callee c)))"

text \<open>The module that a call goes to, with what the call does there.\<close>

definition classify :: "scope \<Rightarrow> call \<Rightarrow> (string \<times> effect) option" where
  "classify sc c =
     (case origin sc c of
        None \<Rightarrow> None
      | Some m \<Rightarrow> (case effect_in m c of None \<Rightarrow> None | Some e \<Rightarrow> Some (m, e)))"

subsection \<open>What the properties below speak of\<close>

text \<open>
  The file types that the interface description lists for the input datasets, and the
  file types of the datasets that the notebooks do fetch.
\<close>

definition spec_extensions :: "string list" where
  "spec_extensions = [''npz'', ''pdb'', ''dcd'', ''xtc'']"

definition dataset_extensions :: "string list" where
  "dataset_extensions = [''npz'', ''npy'', ''pdb'', ''dcd'', ''xtc'']"



text \<open>
  A call of the library goes through its public interface when it names one of the
  packages \<open>coordinates\<close>, \<open>msm\<close> and \<open>plots\<close> and no name with a leading underscore.
\<close>

definition public_name :: "string \<Rightarrow> bool" where
  "public_name f = (case f of [] \<Rightarrow> False | c # cs \<Rightarrow> c \<noteq> CHR ''_'')"

fun public_library_call :: "call \<Rightarrow> bool" where
  "public_library_call (Pyemma m f) =
     (m \<in> set [''coordinates'', ''msm'', ''plots''] \<and> public_name f)"
| "public_library_call (Method r f) = public_name f"
| "public_library_call (Save_traj out) = True"
| "public_library_call c = False"


text \<open>
  The statements of a sequential script: the one magic line that selects inline plots,
  imports, assignments, expressions, function definitions with their returns, and
  \<^verbatim>\<open>for\<close>, \<^verbatim>\<open>if\<close> and \<^verbatim>\<open>with\<close>.
\<close>

fun sequential_stmt :: "stmt \<Rightarrow> bool" where
  "sequential_stmt (Magic_stmt m) = (m = ''%matplotlib inline'')"
| "sequential_stmt (Import_stmt m a) = True"
| "sequential_stmt (ImportFrom_stmt m f) = True"
| "sequential_stmt Assign_stmt = True"
| "sequential_stmt Expr_stmt = True"
| "sequential_stmt (Def_stmt f) = True"
| "sequential_stmt Return_stmt = True"
| "sequential_stmt For_stmt = True"
| "sequential_stmt If_stmt = True"
| "sequential_stmt With_stmt = True"
| "sequential_stmt While_stmt = False"
| "sequential_stmt Try_stmt = False"
| "sequential_stmt Raise_stmt = False"
| "sequential_stmt Async_stmt = False"

text \<open>What a call may do in a script that runs in one thread and writes no file.\<close>

definition quiet_effects :: "effect list" where
  "quiet_effects = [Computes, Reads, Fetches, Plots, Prints, Shows]"

text \<open>
  The check that every call of the notebooks passes below: it is classified, it does not
  write a file, it starts a timer only as \<^verbatim>\<open>Timer(30, stop_spin).start()\<close> does, and it
  names the library through its public interface if it goes to the library.
\<close>

fun call_ok :: "call \<Rightarrow> (string \<times> effect) option \<Rightarrow> bool" where
  "call_ok c None = False"
| "call_ok c (Some (m, e)) =
     (e \<noteq> Writes \<and> (e = Starts_timer \<longrightarrow> c = Timer_start 30)
      \<and> (m = ''pyemma'' \<longrightarrow> public_library_call c))"

section \<open>Properties of the helper code\<close>

lemma comprehension_total:
  "(\<forall>x \<in> set xs. \<exists>y. f x = Inr y) \<Longrightarrow> \<exists>ys. comprehension f xs = Inr ys"
  by (induction xs) auto

lemma cluster_means_total:
  assumes "length dtraj = length ft"
  shows "\<exists>v. cluster_means ft dtraj n = Inr v"
  unfolding cluster_means_def
  by (rule comprehension_total) (simp add: mask_select_def eq_mask_def assms)

text \<open>
  C8. In the reference solution of exercise 1 the vector \<open>new_observable_vec\<close> is computed
  from \<open>ftraj\<close>, the trajectory of the first observable, and not from \<open>new_ftraj\<close>: whenever
  the cells run through, \<open>new_observable_vec\<close> equals \<open>observable_vec\<close>, entry by entry
  (a cluster without frames has \<open>nan\<close>, here \<open>None\<close>, in both), and both hold the cluster
  means of the first observable. The cells do run through whenever the discrete trajectory
  has one state per frame.
\<close>

theorem new_observable_vec_eq_observable_vec:
  "(length (dtraj0 s) = length (data s) \<longrightarrow> (\<exists>s'. exercise1 s = Inr s'))
   \<and> (\<forall>s'. exercise1 s = Inr s' \<longrightarrow>
         new_observable_vec s' = observable_vec s'
         \<and> Inr (observable_vec s') =
             cluster_means (map (\<lambda>(x, y). observable x y) (data s)) (dtraj0 s) (n_clusters s))"
proof (intro conjI impI allI)
  assume len: "length (dtraj0 s) = length (data s)"
  then obtain v where v: "cluster_means (ftraj (cell_ftraj s)) (dtraj0 s) (n_clusters s) = Inr v"
    using cluster_means_total [of "dtraj0 s" "ftraj (cell_ftraj s)" "n_clusters s"]
    by (auto simp: cell_ftraj_def)
  then show "\<exists>s'. exercise1 s = Inr s'"
    by (simp add: exercise1_def cell_observable_vec_def cell_solution1_def cell_ftraj_def Let_def)
next
  fix s' assume run: "exercise1 s = Inr s'"
  then show "new_observable_vec s' = observable_vec s'"
    by (auto simp: exercise1_def cell_observable_vec_def cell_solution1_def cell_ftraj_def Let_def
             split: sum.splits)
next
  fix s' assume run: "exercise1 s = Inr s'"
  then show "Inr (observable_vec s') =
      cluster_means (map (\<lambda>(x, y). observable x y) (data s)) (dtraj0 s) (n_clusters s)"
    by (auto simp: exercise1_def cell_observable_vec_def cell_solution1_def cell_ftraj_def Let_def
             split: sum.splits)
qed

lemma upt_0_2: "[0..<2] = [0, Suc 0]"
  by (simp add: numeral_2_eq_2 upt_rec)

lemma cluster_means_session0:
  "cluster_means [4, 6, 7] [0, 1, 0] 2 = Inr [Some (11/2), Some 6]"
  by (simp add: cluster_means_def mask_select_def eq_mask_def np_mean_def upt_0_2)

lemma cluster_means_new_ftraj:
  "cluster_means [4, 11, 13] [0, 1, 0] 2 = Inr [Some (17/2), Some 11]"
  by (simp add: cluster_means_def mask_select_def eq_mask_def np_mean_def upt_0_2)

lemma exercise1_session0: "exercise1 session0 = Inr session1"
  by (simp add: exercise1_def cell_observable_vec_def cell_solution1_def cell_ftraj_def
      session0_def session1_def observable_def new_observable_def cluster_means_session0
      Let_def power2_eq_square)

text \<open>
  On three frames in two clusters the cells run through and leave the cluster means of the
  first observable in both vectors; the means of \<open>new_ftraj\<close> would have been different.
\<close>

theorem new_observable_vec_eq_observable_vec_witness:
  "length (dtraj0 session0) = length (data session0)
   \<and> exercise1 session0 = Inr session1
   \<and> new_observable_vec session1 = observable_vec session1
   \<and> observable_vec session1 = [Some (11/2), Some 6]
   \<and> means_of_new_ftraj session1 = Inr [Some (17/2), Some 11]"
proof -
  have "new_observable_vec session1 = observable_vec session1"
    using new_observable_vec_eq_observable_vec [of session0] exercise1_session0 by blast
  moreover have "means_of_new_ftraj session1 = Inr [Some (17/2), Some 11]"
    by (simp add: means_of_new_ftraj_def session1_def cluster_means_new_ftraj)
  ultimately show ?thesis
    by (simp add: exercise1_session0) (simp add: session0_def session1_def)
qed

text \<open>
  C9. \<open>is_within x a b\<close> is \<open>' not '\<close> exactly when \<open>x < a\<close> or \<open>x > b\<close>, and \<open>' '\<close> otherwise,
  that is exactly when \<open>a \<le> x \<le> b\<close>.
\<close>

theorem is_within_spec:
  "(is_within x a b = '' not '') = (x < a \<or> x > b)
   \<and> (is_within x a b = '' '') = (a \<le> x \<and> x \<le> b)
   \<and> (is_within x a b = '' not '' \<or> is_within x a b = '' '')"
  by (auto simp: is_within_def)

theorem is_within_spec_witness:
  "is_within 5 4.5 5.5 = '' '' \<and> is_within 5 5.2 5.5 = '' not '' \<and> is_within 5 3 4 = '' not ''"
  using is_within_spec [of 5 "4.5" "5.5"] is_within_spec [of 5 "5.2" "5.5"]
    is_within_spec [of 5 3 4]
  by simp

text \<open>
  C10. The Karplus forward model is an even function of the dihedral angle, since it
  depends on the angle through its cosine only.
\<close>

theorem Karplus_even: "Karplus (- theta) = Karplus theta"
  by (simp add: Karplus_def)

section \<open>Properties of the notebooks\<close>

subsection \<open>Facts read off the scripts\<close>

lemma all_stmts_sequential:
  "\<forall>nb\<in>set notebooks. \<forall>s\<in>set (all_stmts nb). sequential_stmt s"
  by code_simp

lemma all_calls_ok:
  "\<forall>nb\<in>set notebooks. \<forall>c\<in>set (all_calls nb). call_ok c (classify (scope_of nb) c)"
  by code_simp

lemma call_okD:
  "call_ok c r \<Longrightarrow>
   \<exists>m e. r = Some (m, e) \<and> e \<noteq> Writes \<and> (e = Starts_timer \<longrightarrow> c = Timer_start 30)
     \<and> (m = ''pyemma'' \<longrightarrow> public_library_call c)"
  by (cases r) auto



lemma api_starts_timer:
  "\<forall>(m, fs)\<in>set api. \<forall>(f, e)\<in>set fs. e = Starts_timer \<longrightarrow> m = ''threading''"
  by code_simp

lemma classify_Starts_timer:
  assumes "classify sc c = Some (m, Starts_timer)"
  shows "m = ''threading''"
proof -
  from assms have eff: "effect_in m c = Some Starts_timer"
    by (auto simp: classify_def split: option.splits)
  then have "\<exists>fs. map_of api m = Some fs \<and> map_of fs (callee c) = Some Starts_timer"
    by (cases c) (auto simp: effect_in_def split: option.splits if_splits)
  then obtain fs where "(m, fs) \<in> set api" and "(callee c, Starts_timer) \<in> set fs"
    by (auto dest: map_of_SomeD)
  with api_starts_timer show ?thesis
    by fastforce
qed

lemma timer_cells_nb01:
  "[index c. c \<leftarrow> cells nb01, Timer_start 30 \<in> set (calls c)] = [11, 41]"
  by code_simp


lemma quiet_or_timer:
  "e \<noteq> Writes \<Longrightarrow> e \<in> set quiet_effects \<or> e = Starts_timer"
  by (cases e) (auto simp: quiet_effects_def)

lemma timers_table:
  "map (\<lambda>nb. (title nb, timers nb)) notebooks =
     [(''01 - Data-I/O and featurization'', [30, 30]),
      (''02 - Dimension reduction and discretization'', []),
      (''03 - MSM estimation and validation'', []),
      (''05 - hidden Markov state models (HMMs)'', []),
      (''06 - Expectations and Observables'', []),
      (''07 - common problems & bad data situations'', []),
      (''VAMP score based feature selection'', [])]"
  by code_simp





lemma fetches_checked:
  "\<forall>nb\<in>set notebooks. \<forall>(p, d)\<in>set (fetches nb).
     extension p \<in> set dataset_extensions \<and> d = ''data''"
  by code_simp

lemma nb01_listed: "nb01 \<in> set notebooks"
  by (simp add: notebooks_def)


lemma nb07_listed: "nb07 \<in> set notebooks"
  by (simp add: notebooks_def)

lemma fetch_oneway: "(''doublewell_oneway.npy'', ''data'') \<in> set (fetches nb07)"
  by code_simp

lemma extension_oneway: "extension ''doublewell_oneway.npy'' = ''npy''"
  by (simp add: extension_def)

lemma timers_nb01: "timers nb01 = [30, 30]"
  by code_simp

lemma timer_call_nb01: "Timer_start 30 \<in> set (all_calls nb01)"
  by code_simp

lemma import_Timer_nb01: "ImportFrom_stmt ''threading'' ''Timer'' \<in> set (all_stmts nb01)"
  by code_simp

lemma timer_classified:
  "classify (scope_of nb01) (Timer_start 30) = Some (''threading'', Starts_timer)"
  by code_simp









subsection \<open>Input datasets\<close>

text \<open>
  C2, as stated, fails: notebook 07 fetches \<open>doublewell_oneway.npy\<close>, whose file type is
  none of \<open>npz\<close>, \<open>pdb\<close>, \<open>dcd\<close> and \<open>xtc\<close>.
\<close>

theorem fetch_npy_counterexample:
  "nb07 \<in> set notebooks
   \<and> (''doublewell_oneway.npy'', ''data'') \<in> set (fetches nb07)
   \<and> extension ''doublewell_oneway.npy'' = ''npy''
   \<and> extension ''doublewell_oneway.npy'' \<notin> set spec_extensions"
  by (simp add: nb07_listed fetch_oneway extension_oneway spec_extensions_def)

text \<open>
  C2, amended. Every dataset that a notebook fetches is a \<open>.npz\<close>, \<open>.npy\<close>, \<open>.pdb\<close>,
  \<open>.dcd\<close> or \<open>.xtc\<close> file, and every fetch names the working directory \<open>data\<close>.
\<close>

theorem fetches_extension_and_directory:
  "\<forall>nb\<in>set notebooks. \<forall>(p, d)\<in>set (fetches nb).
     extension p \<in> set dataset_extensions \<and> d = ''data''"
  by (rule fetches_checked)

theorem fetches_extension_and_directory_witness:
  "nb07 \<in> set notebooks
   \<and> (''doublewell_oneway.npy'', ''data'') \<in> set (fetches nb07)
   \<and> extension ''doublewell_oneway.npy'' \<in> set dataset_extensions"
proof -
  have "extension ''doublewell_oneway.npy'' \<in> set dataset_extensions"
    using fetches_extension_and_directory nb07_listed fetch_oneway by fast
  then show ?thesis
    by (simp add: nb07_listed fetch_oneway)
qed

subsection \<open>Threads\<close>

text \<open>
  C3, as stated, fails: notebook 01 starts two timer threads.
\<close>

theorem timer_thread_counterexample:
  "nb01 \<in> set notebooks \<and> timers nb01 = [30, 30] \<and> timers nb01 \<noteq> []"
  by (simp add: nb01_listed timers_nb01)

text \<open>
  C3, amended. Every notebook is a sequential script: its statements are the magic line
  for inline plots, imports, assignments, expressions, function definitions and
  \<^verbatim>\<open>for\<close>, \<^verbatim>\<open>if\<close> and \<^verbatim>\<open>with\<close> blocks, with no \<^verbatim>\<open>while\<close>, \<^verbatim>\<open>try\<close>, \<^verbatim>\<open>raise\<close> or
  \<^verbatim>\<open>async\<close> statement, and each of its calls is a listed function that computes, reads
  or fetches data, plots, prints or shows a viewer, but for one: the only call that starts
  a thread is \<^verbatim>\<open>Timer(30, stop_spin).start()\<close>, with \<open>Timer\<close> from \<open>threading\<close>, which
  stands in cells 11 and 41 of notebook 01 and in no other notebook. So no call creates a process or another thread, joins or cancels a
  timer, or takes a lock or a queue, and no statement can retry.
\<close>

theorem notebooks_sequential_but_for_timers:
  "(\<forall>nb\<in>set notebooks. \<forall>s\<in>set (all_stmts nb). sequential_stmt s)
   \<and> (\<forall>nb\<in>set notebooks. \<forall>c\<in>set (all_calls nb).
         \<exists>m e. classify (scope_of nb) c = Some (m, e)
           \<and> (e \<in> set quiet_effects
                \<or> (e = Starts_timer \<and> m = ''threading'' \<and> c = Timer_start 30)))
   \<and> map (\<lambda>nb. (title nb, timers nb)) notebooks =
        [(''01 - Data-I/O and featurization'', [30, 30]),
         (''02 - Dimension reduction and discretization'', []),
         (''03 - MSM estimation and validation'', []),
         (''05 - hidden Markov state models (HMMs)'', []),
         (''06 - Expectations and Observables'', []),
         (''07 - common problems & bad data situations'', []),
         (''VAMP score based feature selection'', [])]
   \<and> [index c. c \<leftarrow> cells nb01, Timer_start 30 \<in> set (calls c)] = [11, 41]"
proof (intro conjI ballI)
  fix nb s assume "nb \<in> set notebooks" "s \<in> set (all_stmts nb)"
  then show "sequential_stmt s"
    using all_stmts_sequential by blast
next
  fix nb c assume "nb \<in> set notebooks" "c \<in> set (all_calls nb)"
  then have "call_ok c (classify (scope_of nb) c)"
    using all_calls_ok by blast
  then obtain m e where cl: "classify (scope_of nb) c = Some (m, e)" and "e \<noteq> Writes"
      and "e = Starts_timer \<longrightarrow> c = Timer_start 30"
    using call_okD by blast
  moreover have "e = Starts_timer \<longrightarrow> m = ''threading''"
    using cl classify_Starts_timer by blast
  ultimately show "\<exists>m e. classify (scope_of nb) c = Some (m, e)
      \<and> (e \<in> set quiet_effects
           \<or> (e = Starts_timer \<and> m = ''threading'' \<and> c = Timer_start 30))"
    using quiet_or_timer by blast
qed (rule timers_table, rule timer_cells_nb01)

theorem notebooks_sequential_but_for_timers_witness:
  "nb01 \<in> set notebooks
   \<and> ImportFrom_stmt ''threading'' ''Timer'' \<in> set (all_stmts nb01)
   \<and> sequential_stmt (ImportFrom_stmt ''threading'' ''Timer'')
   \<and> Timer_start 30 \<in> set (all_calls nb01)
   \<and> classify (scope_of nb01) (Timer_start 30) = Some (''threading'', Starts_timer)
   \<and> Starts_timer \<notin> set quiet_effects"
proof -
  have "sequential_stmt (ImportFrom_stmt ''threading'' ''Timer'')"
    using notebooks_sequential_but_for_timers nb01_listed import_Timer_nb01 by blast
  then show ?thesis
    by (simp add: nb01_listed import_Timer_nb01 timer_call_nb01 timer_classified
        quiet_effects_def)
qed

subsection \<open>Use of the library\<close>




subsection \<open>Outputs\<close>




end
